theory Spec2Isabelle
  imports Complex_Main "HOL-Library.AList"
begin

section \<open>Event reconciliation engine of the NHL notifications app\<close>

text \<open>
  A shallow embedding of the reconciliation core of \<^verbatim>\<open>src/nhl_notifications_app.py\<close>
  (class \<^verbatim>\<open>NhlGameNotifications\<close>): the broadcast-delay lookup, the goal-side resolver,
  the coalescing scheduler, the scoreboard fallback, the win detector and the two sensor
  callbacks that drive them. Text rendering, push notifications, logos, team names and the
  play-by-play detail matchers only decorate an event that has already been decided; they
  are left out, and each hand-off to them is one entry of the output log.
\<close>

subsection \<open>Python values\<close>

text \<open>
  A Python float: the finite values are taken as reals (rounding plays no part in what
  follows), the two infinities and NaN are kept, because \<^verbatim>\<open>float("nan")\<close> and
  \<^verbatim>\<open>float("inf")\<close> are values the code can receive.
\<close>

datatype pyfloat = Fin real | PosInf | NegInf | NaN

text \<open>\<^verbatim>\<open>a < b\<close> on floats: every comparison with NaN is false.\<close>

fun py_lt :: "pyfloat \<Rightarrow> pyfloat \<Rightarrow> bool" where
  "py_lt NaN b = False"
| "py_lt a NaN = False"
| "py_lt (Fin a) (Fin b) = (a < b)"
| "py_lt (Fin a) PosInf = True"
| "py_lt (Fin a) NegInf = False"
| "py_lt PosInf b = False"
| "py_lt NegInf (Fin b) = True"
| "py_lt NegInf PosInf = True"
| "py_lt NegInf NegInf = False"

text \<open>
  The builtins \<^verbatim>\<open>min(a, b)\<close> and \<^verbatim>\<open>max(a, b)\<close>: the first argument is kept unless the
  second is strictly smaller (strictly greater).
\<close>

definition py_min :: "pyfloat \<Rightarrow> pyfloat \<Rightarrow> pyfloat" where
  "py_min a b = (if py_lt b a then b else a)"

definition py_max :: "pyfloat \<Rightarrow> pyfloat \<Rightarrow> pyfloat" where
  "py_max a b = (if py_lt a b then b else a)"

text \<open>\<^verbatim>\<open>str.lower()\<close> and \<^verbatim>\<open>str.upper()\<close> on ASCII text.\<close>

text \<open>
  The letters A to Z are the codes 65 to 90, a to z the codes 97 to 122: the two cases
  differ in the bit of weight 32.
\<close>

definition char_lower :: "char \<Rightarrow> char" where
  "char_lower c =
     (if 65 \<le> (of_char c :: nat) \<and> (of_char c :: nat) \<le> 90
      then (case c of Char b0 b1 b2 b3 b4 b5 b6 b7 \<Rightarrow> Char b0 b1 b2 b3 b4 True b6 b7)
      else c)"

definition char_upper :: "char \<Rightarrow> char" where
  "char_upper c =
     (if 97 \<le> (of_char c :: nat) \<and> (of_char c :: nat) \<le> 122
      then (case c of Char b0 b1 b2 b3 b4 b5 b6 b7 \<Rightarrow> Char b0 b1 b2 b3 b4 False b6 b7)
      else c)"

definition lower :: "string \<Rightarrow> string" where
  "lower s = map char_lower s"

definition upper :: "string \<Rightarrow> string" where
  "upper s = map char_upper s"

text \<open>\<^verbatim>\<open>d.get(k) or default\<close> for a string-valued key: a missing, None or empty value
  gives the default.\<close>

definition str_or :: "string option \<Rightarrow> string \<Rightarrow> string" where
  "str_or v d = (case v of None \<Rightarrow> d | Some s \<Rightarrow> if s = [] then d else s)"

text \<open>Truthiness of an optional string (an id): present and not empty.\<close>

definition truthy :: "string option \<Rightarrow> bool" where
  "truthy v = (case v of None \<Rightarrow> False | Some s \<Rightarrow> s \<noteq> [])"

subsection \<open>Configuration\<close>

text \<open>The values \<^verbatim>\<open>initialize\<close> reads from \<^verbatim>\<open>self.args\<close>.\<close>

record config =
  coalesce_goal_seconds :: real
  coalesce_penalty_seconds :: real
  suppress_after_scoreboard_goal_seconds :: real
  broadcast_delay_input_number :: "string option"
  broadcast_delay_seconds :: pyfloat
  celebrate_win_only_if_home :: bool
  opponent_goal_event_to_fire :: "string option"

subsection \<open>The broadcast delay\<close>

text \<open>
  What \<^verbatim>\<open>self.get_state(self.broadcast_delay_input_number)\<close> gives: the call may raise, or
  return None, a number, a string, or something else. A string carries the result of
  Python's \<^verbatim>\<open>float(val)\<close> on it (\<open>None\<close> when \<^verbatim>\<open>float\<close> raises ValueError); an int
  carries the result of \<^verbatim>\<open>float(val)\<close> likewise (\<open>None\<close> when it raises OverflowError).
\<close>

datatype ha_value =
    HNone
  | HInt int "pyfloat option"
  | HFloat pyfloat
  | HStr string "pyfloat option"
  | HOther

datatype ha_read = Raises | Returns ha_value

definition clamp_delay :: "pyfloat \<Rightarrow> pyfloat" where
  "clamp_delay v = py_max (Fin 0) (py_min (Fin 120) v)"

text \<open>
  The body of the \<^verbatim>\<open>try\<close> block of \<^verbatim>\<open>_get_broadcast_delay\<close>: \<open>Inl ()\<close> is a raised
  exception, \<open>Inr (Some d)\<close> a \<^verbatim>\<open>return d\<close> inside the block, \<open>Inr None\<close> falling out of it.
\<close>

definition broadcast_delay_try :: "config \<Rightarrow> ha_read \<Rightarrow> unit + pyfloat option" where
  "broadcast_delay_try cfg rd =
     (if truthy (broadcast_delay_input_number cfg) then
        (case rd of
           Raises \<Rightarrow> Inl ()
         | Returns val \<Rightarrow>
             (case val of
                HInt i f \<Rightarrow> (case f of None \<Rightarrow> Inl () | Some x \<Rightarrow> Inr (Some (clamp_delay x)))
              | HFloat x \<Rightarrow> Inr (Some (clamp_delay x))
              | HStr str f \<Rightarrow>
                  (if lower str \<notin> {''unknown'', ''unavailable'', '''', ''none''} then
                     (case f of None \<Rightarrow> Inl () | Some x \<Rightarrow> Inr (Some (clamp_delay x)))
                   else Inr None)
              | HNone \<Rightarrow> Inr None
              | HOther \<Rightarrow> Inr None))
      else Inr None)"

definition get_broadcast_delay :: "config \<Rightarrow> ha_read \<Rightarrow> pyfloat" where
  "get_broadcast_delay cfg rd =
     (case broadcast_delay_try cfg rd of
        Inr (Some d) \<Rightarrow> d
      | Inr None \<Rightarrow> clamp_delay (broadcast_delay_seconds cfg)
      | Inl u \<Rightarrow> clamp_delay (broadcast_delay_seconds cfg))"

text \<open>The delay as a number of seconds, for the timers.\<close>

fun seconds :: "pyfloat \<Rightarrow> real" where
  "seconds (Fin r) = r"
| "seconds PosInf = 0"
| "seconds NegInf = 0"
| "seconds NaN = 0"

text \<open>When the entity gives no usable number: unset, unreadable, or not numeric.\<close>

definition delay_entity_unusable :: "config \<Rightarrow> ha_read \<Rightarrow> bool" where
  "delay_entity_unusable cfg rd =
     (\<not> truthy (broadcast_delay_input_number cfg) \<or>
      (case rd of
         Raises \<Rightarrow> True
       | Returns val \<Rightarrow>
           (case val of
              HNone \<Rightarrow> True
            | HOther \<Rightarrow> True
            | HInt i f \<Rightarrow> f = None
            | HFloat x \<Rightarrow> False
            | HStr str f \<Rightarrow>
                lower str \<in> {''unknown'', ''unavailable'', '''', ''none''} \<or> f = None)))"

text \<open>A number the entity gives: the \<^verbatim>\<open>float(val)\<close> of a numeric or parseable value.\<close>

definition delay_entity_number :: "ha_read \<Rightarrow> pyfloat option" where
  "delay_entity_number rd =
     (case rd of
        Raises \<Rightarrow> None
      | Returns val \<Rightarrow>
          (case val of
             HInt i f \<Rightarrow> f
           | HFloat x \<Rightarrow> Some x
           | HStr str f \<Rightarrow>
               (if lower str \<in> {''unknown'', ''unavailable'', '''', ''none''} then None else f)
           | HNone \<Rightarrow> None
           | HOther \<Rightarrow> None))"

subsection \<open>Feeds, payloads and outputs\<close>

text \<open>
  The \<^verbatim>\<open>last_event\<close> dict of the dashboard feed (also the \<^verbatim>\<open>raw_last_event\<close> of a
  payload): the keys the engine reads. A missing key and a None value are both \<open>None\<close>.
\<close>

record last_event =
  le_type :: "string option"
  le_team :: "string option"
  le_scorer :: "string option"
  le_time_in_period :: "string option"
  le_period_ord :: "string option"

text \<open>
  The attributes of the dashboard sensor (Feed A). Scores are integers when present, ids
  are strings; \<open>d_last_event = None\<close> stands for a missing, None or empty dict.
\<close>

record dash_attrs =
  d_game_id :: "string option"
  d_home_abbr :: "string option"
  d_away_abbr :: "string option"
  d_home_score :: "int option"
  d_away_score :: "int option"
  d_last_event :: "last_event option"
  d_last_event_id :: "string option"
  d_period_ord :: "string option"
  d_time_remaining :: "string option"
  d_game_state_api :: "string option"

record dash_state =
  ds_state :: string
  ds_attrs :: dash_attrs

text \<open>The attribute \<^verbatim>\<open>goal_tracked_team\<close> of the API feed: only a bool counts.\<close>

datatype flag = FlagAbsent | FlagBool bool | FlagOther

text \<open>The attributes of the NHL API sensor (Feed B).\<close>

record api_attrs =
  a_game_id :: "string option"
  a_home_abbr :: "string option"
  a_away_abbr :: "string option"
  a_team_abbrev :: "string option"
  a_home_score :: "int option"
  a_away_score :: "int option"
  a_goal_event_id :: "string option"
  a_goal_team_abbrev :: "string option"
  a_goal_team_abbr :: "string option"
  a_goal_tracked_team :: flag
  a_scoring_player_name :: "string option"
  a_current_period :: "string option"
  a_period :: "string option"
  a_time_remaining :: "string option"
  a_goal_time :: "string option"

record api_state =
  as_state :: "string option"
  as_attrs :: api_attrs

text \<open>The context dict \<^verbatim>\<open>_build_nhl_api_context\<close> returns.\<close>

record api_context =
  c_my_team_abbr :: string
  c_opp_team_abbr :: string
  c_is_home :: bool
  c_home_abbr :: string
  c_away_abbr :: string
  c_home_score :: int
  c_away_score :: int
  c_game_id :: "string option"

text \<open>
  The payload dict of a pending event. Goal payloads carry every key; penalty payloads
  carry the team abbreviations, period, time and the raw event only. \<open>None\<close> is a key
  that is missing or None.
\<close>

record payload =
  p_is_my_event :: "bool option"
  p_my_team_abbr :: "string option"
  p_opp_team_abbr :: "string option"
  p_home_abbr :: "string option"
  p_away_abbr :: "string option"
  p_period_ord :: "string option"
  p_time_remaining :: "string option"
  p_my_score :: "int option"
  p_opp_score :: "int option"
  p_raw_last_event :: "last_event option"
  p_goal_team_abbr :: "string option"

datatype event_type = Goal | Penalty

text \<open>The keyword arguments of \<^verbatim>\<open>_scoreboard_goal_fire_wrapper\<close>.\<close>

record sb_kwargs =
  k_kind :: string
  k_score_sig :: "int \<times> int"
  k_my_score :: int
  k_opp_score :: int
  k_period_ord :: "string option"
  k_time_remaining :: "string option"

datatype win_source = DashboardWin | ApiWin

text \<open>What the closure \<^verbatim>\<open>_fire_win\<close> captures.\<close>

record win_closure =
  wc_source :: win_source
  wc_game_id :: "string option"
  wc_my_score :: int
  wc_opp_score :: int
  wc_is_home :: bool

text \<open>A timer of the AppDaemon scheduler runs one of three callbacks.\<close>

datatype callback =
    CoalescedFire string event_type
  | ScoreboardGoalFire sb_kwargs
  | FireWin win_closure

text \<open>
  The hand-offs to the outside: a coalesced goal or penalty with its event id and final
  payload, a scoreboard goal with its side and score signature, a team win, a puck drop.
\<close>

datatype out_event =
    CoalescedGoal string payload
  | CoalescedPenalty string payload
  | ScoreboardGoal bool "int \<times> int" int int
  | TeamWin win_closure
  | PuckDrop "string option"

subsection \<open>The state of the app\<close>

text \<open>
  The instance attributes of \<^verbatim>\<open>NhlGameNotifications\<close> that the engine reads, with the
  three dicts as association lists in insertion order, then the scheduler (its live
  timers, each with its due time, and the next fresh handle), then the output log.
  \<open>session\<close> is a ghost counter that the code never reads: it counts the calls of
  \<^verbatim>\<open>_clear_pending_events\<close>, and each entry of the log is stamped with it.
\<close>

record engine =
  internal_prev_home_score :: int
  internal_prev_away_score :: int
  internal_prev_game_id_for_score_tracking :: "string option"
  internal_prev_last_event_id :: "string option"
  internal_win_fired_game_id :: "string option"
  internal_start_fired_game_id :: "string option"
  nhl_api_goal_ids_processed :: "string set"
  pending_event_timers :: "(string \<times> nat) list"
  pending_event_payloads :: "(string \<times> payload) list"
  fired_event_ids :: "string set"
  sb_goal_suppress_until_ts :: real
  sb_last_fired_home_away :: "(int \<times> int) option"
  pending_sb_goal_timers :: "((int \<times> int) \<times> nat) list"
  timers :: "nat \<rightharpoonup> real \<times> callback"
  next_handle :: nat
  emitted :: "(nat \<times> out_event) list"
  session :: nat

text \<open>
  What a callback reads from outside the app while it runs: the clock, the broadcast-delay
  entity, the tracked team's abbreviation (the result of \<^verbatim>\<open>_get_selected_team_abbrev\<close>),
  and the current state of the dashboard sensor.
\<close>

record world =
  w_now :: real
  w_delay_entity :: ha_read
  w_selected_team_abbrev :: "string option"
  w_dashboard :: "dash_state option"

definition initialize :: engine where
  "initialize =
     \<lparr>internal_prev_home_score = 0, internal_prev_away_score = 0,
      internal_prev_game_id_for_score_tracking = None,
      internal_prev_last_event_id = None,
      internal_win_fired_game_id = None, internal_start_fired_game_id = None,
      nhl_api_goal_ids_processed = {},
      pending_event_timers = [], pending_event_payloads = [],
      fired_event_ids = {},
      sb_goal_suppress_until_ts = 0, sb_last_fired_home_away = None,
      pending_sb_goal_timers = [],
      timers = Map.empty, next_handle = 0, emitted = [], session = 0\<rparr>"

subsection \<open>The scheduler\<close>

definition run_in :: "world \<Rightarrow> callback \<Rightarrow> real \<Rightarrow> engine \<Rightarrow> nat \<times> engine" where
  "run_in w cb delay s =
     (next_handle s,
      s\<lparr>timers := (timers s)(next_handle s \<mapsto> (w_now w + delay, cb)),
        next_handle := Suc (next_handle s)\<rparr>)"

definition timer_running :: "nat \<Rightarrow> engine \<Rightarrow> bool" where
  "timer_running h s = (timers s h \<noteq> None)"

definition cancel_timer :: "nat \<Rightarrow> engine \<Rightarrow> engine" where
  "cancel_timer h s = s\<lparr>timers := (timers s)(h := None)\<rparr>"

text \<open>\<^verbatim>\<open>if self.timer_running(handle): self.cancel_timer(handle)\<close>\<close>

definition cancel_if_running :: "nat \<Rightarrow> engine \<Rightarrow> engine" where
  "cancel_if_running h s = (if timer_running h s then cancel_timer h s else s)"

definition fire_event :: "out_event \<Rightarrow> engine \<Rightarrow> engine" where
  "fire_event ev s = s\<lparr>emitted := emitted s @ [(session s, ev)]\<rparr>"

subsection \<open>Session reset\<close>

definition clear_pending_events :: "engine \<Rightarrow> engine" where
  "clear_pending_events s =
     (let s1 = fold (\<lambda>(eid, h). cancel_if_running h) (pending_event_timers s) s;
          s2 = s1\<lparr>pending_event_timers := [], pending_event_payloads := [],
                  fired_event_ids := {}, nhl_api_goal_ids_processed := {}\<rparr>;
          s3 = fold (\<lambda>(sig, h). cancel_if_running h) (pending_sb_goal_timers s2) s2
      in s3\<lparr>pending_sb_goal_timers := [],
            sb_goal_suppress_until_ts := 0, sb_last_fired_home_away := None,
            session := Suc (session s3)\<rparr>)"

text \<open>The trackers that every reset path clears besides the pending events.\<close>

definition reset_trackers :: "engine \<Rightarrow> engine" where
  "reset_trackers s =
     s\<lparr>internal_prev_last_event_id := None,
       internal_win_fired_game_id := None, internal_start_fired_game_id := None\<rparr>"

definition process_initial_state :: "dash_state option \<Rightarrow> engine \<Rightarrow> engine" where
  "process_initial_state init s =
     (let s1 = clear_pending_events s in
      case init of
        None \<Rightarrow>
          reset_trackers
            (s1\<lparr>internal_prev_home_score := 0, internal_prev_away_score := 0,
                internal_prev_game_id_for_score_tracking := None\<rparr>)
      | Some st \<Rightarrow>
          if ds_state st \<noteq> ''unavailable'' then
            reset_trackers
              (s1\<lparr>internal_prev_home_score :=
                    (case d_home_score (ds_attrs st) of None \<Rightarrow> 0 | Some n \<Rightarrow> n),
                  internal_prev_away_score :=
                    (case d_away_score (ds_attrs st) of None \<Rightarrow> 0 | Some n \<Rightarrow> n),
                  internal_prev_game_id_for_score_tracking := d_game_id (ds_attrs st)\<rparr>)
          else
            reset_trackers
              (s1\<lparr>internal_prev_home_score := 0, internal_prev_away_score := 0,
                  internal_prev_game_id_for_score_tracking := None\<rparr>))"

text \<open>
  \<^verbatim>\<open>team_preset_change_callback\<close>, up to its notification: an unchanged or unusable new
  preset is ignored, any other resets everything.
\<close>

definition team_preset_change_callback ::
  "string option \<Rightarrow> string option \<Rightarrow> engine \<Rightarrow> engine" where
  "team_preset_change_callback old_state_val new_state_val s =
     (if old_state_val = new_state_val \<or> \<not> truthy new_state_val \<or>
         new_state_val \<in> {Some ''unavailable'', Some ''unknown'', Some ''None'', Some []}
      then s
      else clear_pending_events
             (reset_trackers
               (s\<lparr>internal_prev_home_score := 0, internal_prev_away_score := 0,
                  internal_prev_game_id_for_score_tracking := None\<rparr>)))"

subsection \<open>Goal side\<close>

text \<open>
  \<^verbatim>\<open>_determine_goal_side\<close>, with the previous scores it reads from the instance as
  arguments. The second component tells whether the function logged
  "Goal side undetermined; defaulting to opponent."
\<close>

definition determine_goal_side :: "api_attrs \<Rightarrow> api_context \<Rightarrow> int \<Rightarrow> int \<Rightarrow> bool \<times> bool" where
  "determine_goal_side attrs ctx prev_home prev_away =
     (let goal_team = upper (str_or (a_goal_team_abbrev attrs) (str_or (a_goal_team_abbr attrs) []));
          tracked_flag = a_goal_tracked_team attrs;
          my_abbr = c_my_team_abbr ctx;
          opp_abbr = c_opp_team_abbr ctx;
          cur_home = c_home_score ctx;
          cur_away = c_away_score ctx
      in
      if goal_team \<noteq> [] \<and> goal_team = my_abbr then (True, False)
      else if goal_team \<noteq> [] \<and> goal_team = opp_abbr then (False, False)
      else
        (case tracked_flag of
           FlagBool b \<Rightarrow> (b, False)
         | FlagAbsent \<Rightarrow>
             (if my_abbr = c_home_abbr ctx then
                (if cur_home > prev_home then (True, False)
                 else if cur_away > prev_away then (False, False)
                 else (False, True))
              else
                (if cur_away > prev_away then (True, False)
                 else if cur_home > prev_home then (False, False)
                 else (False, True)))
         | FlagOther \<Rightarrow>
             (if my_abbr = c_home_abbr ctx then
                (if cur_home > prev_home then (True, False)
                 else if cur_away > prev_away then (False, False)
                 else (False, True))
              else
                (if cur_away > prev_away then (True, False)
                 else if cur_home > prev_home then (False, False)
                 else (False, True)))))"

subsection \<open>The coalescing scheduler\<close>

definition schedule_event_coalesced ::
  "world \<Rightarrow> string \<Rightarrow> event_type \<Rightarrow> payload \<Rightarrow> real \<Rightarrow> engine \<Rightarrow> engine" where
  "schedule_event_coalesced w event_id etype pl delay s =
     (if event_id \<in> fired_event_ids s then s
      else
        (let s1 = s\<lparr>pending_event_payloads :=
                      AList.update event_id pl (pending_event_payloads s)\<rparr>
         in if map_of (pending_event_timers s1) event_id = None then
              (let (h, s2) = run_in w (CoalescedFire event_id etype) (max (1 / 10) delay) s1
               in s2\<lparr>pending_event_timers :=
                       AList.update event_id h (pending_event_timers s2)\<rparr>)
            else s1))"

definition empty_payload :: payload where
  "empty_payload =
     \<lparr>p_is_my_event = None, p_my_team_abbr = None, p_opp_team_abbr = None,
      p_home_abbr = None, p_away_abbr = None, p_period_ord = None,
      p_time_remaining = None, p_my_score = None, p_opp_score = None,
      p_raw_last_event = None, p_goal_team_abbr = None\<rparr>"

definition empty_dash_attrs :: dash_attrs where
  "empty_dash_attrs =
     \<lparr>d_game_id = None, d_home_abbr = None, d_away_abbr = None, d_home_score = None,
      d_away_score = None, d_last_event = None, d_last_event_id = None,
      d_period_ord = None, d_time_remaining = None, d_game_state_api = None\<rparr>"

text \<open>\<^verbatim>\<open>a or b\<close> on optional strings.\<close>

definition opt_or :: "string option \<Rightarrow> string option \<Rightarrow> string option" where
  "opt_or a b = (if truthy a then a else b)"

text \<open>
  The score lines of the late-binding block, inside their \<^verbatim>\<open>try\<close>:
  \<^verbatim>\<open>int(attrs.get("home_score", payload.get("my_score")))\<close> raises when neither the
  snapshot nor the payload has a score, and the assignments made before that stay.
\<close>

definition overlay_scores :: "dash_attrs \<Rightarrow> payload \<Rightarrow> payload" where
  "overlay_scores attrs pl =
     (if p_my_team_abbr pl \<noteq> None \<and> p_home_abbr pl \<noteq> None \<and> p_away_abbr pl \<noteq> None then
        (let (mine, theirs) =
               (if p_my_team_abbr pl = p_home_abbr pl
                then (d_home_score attrs, d_away_score attrs)
                else (d_away_score attrs, d_home_score attrs))
         in case (case mine of Some n \<Rightarrow> Some n | None \<Rightarrow> p_my_score pl) of
              None \<Rightarrow> pl
            | Some m \<Rightarrow>
                (case (case theirs of Some n \<Rightarrow> Some n | None \<Rightarrow> p_opp_score pl) of
                   None \<Rightarrow> pl\<lparr>p_my_score := Some m\<rparr>
                 | Some opp \<Rightarrow> pl\<lparr>p_my_score := Some m, p_opp_score := Some opp\<rparr>))
      else pl)"

text \<open>The late-binding block of \<^verbatim>\<open>_coalesced_fire_callback\<close>.\<close>

definition late_binding :: "dash_attrs \<Rightarrow> string \<Rightarrow> payload \<Rightarrow> payload" where
  "late_binding attrs event_id pl =
     (if str_or (d_last_event_id attrs) [] = event_id then
        overlay_scores attrs
          (pl\<lparr>p_raw_last_event := d_last_event attrs,
              p_period_ord := opt_or (d_period_ord attrs) (p_period_ord pl),
              p_time_remaining := opt_or (d_time_remaining attrs) (p_time_remaining pl)\<rparr>)
      else pl)"

text \<open>The suppression test at the head of \<^verbatim>\<open>_coalesced_fire_goal\<close>, inside its
  \<^verbatim>\<open>try\<close>: a payload without both scores makes \<^verbatim>\<open>int(None)\<close> raise, and the test is
  skipped.\<close>

definition goal_suppressed :: "world \<Rightarrow> payload \<Rightarrow> engine \<Rightarrow> bool" where
  "goal_suppressed w pl s =
     (p_my_score pl \<noteq> None \<and> p_opp_score pl \<noteq> None \<and>
      truthy (p_home_abbr pl) \<and> truthy (p_my_team_abbr pl) \<and>
      w_now w < sb_goal_suppress_until_ts s \<and>
      sb_last_fired_home_away s =
        Some (if p_my_team_abbr pl = p_home_abbr pl
              then (the (p_my_score pl), the (p_opp_score pl))
              else (the (p_opp_score pl), the (p_my_score pl))))"

text \<open>
  \<^verbatim>\<open>_coalesced_fire_goal\<close>: \<open>None\<close> is the KeyError of a payload that lacks a key
  the dispatch subscripts.
\<close>

definition has_goal_keys :: "payload \<Rightarrow> bool" where
  "has_goal_keys pl =
     (p_is_my_event pl \<noteq> None \<and> p_my_team_abbr pl \<noteq> None \<and> p_opp_team_abbr pl \<noteq> None \<and>
      p_my_score pl \<noteq> None \<and> p_opp_score pl \<noteq> None)"

definition coalesced_fire_goal :: "world \<Rightarrow> string \<Rightarrow> payload \<Rightarrow> engine \<Rightarrow> engine option" where
  "coalesced_fire_goal w event_id pl s =
     (if goal_suppressed w pl s then Some s
      else if has_goal_keys pl then Some (fire_event (CoalescedGoal event_id pl) s)
      else None)"

definition coalesced_fire_penalty :: "string \<Rightarrow> payload \<Rightarrow> engine \<Rightarrow> engine" where
  "coalesced_fire_penalty event_id pl s = fire_event (CoalescedPenalty event_id pl) s"

text \<open>
  \<^verbatim>\<open>_coalesced_fire_callback\<close>. The payload is the dict stored under the event id, so the
  late-binding assignments change the stored dict too; when the goal dispatch raises, the
  callback ends there and the bookkeeping after it (\<open>mark_fired\<close>) is not reached. The
  snapshot is what \<^verbatim>\<open>get_state\<close> gives for the dashboard sensor at that moment.
\<close>

definition mark_fired :: "string \<Rightarrow> engine \<Rightarrow> engine" where
  "mark_fired event_id s =
     (let s1 = s\<lparr>fired_event_ids := insert event_id (fired_event_ids s)\<rparr>;
          s2 = (case map_of (pending_event_timers s1) event_id of
                  None \<Rightarrow> s1
                | Some h \<Rightarrow>
                    cancel_if_running h
                      (s1\<lparr>pending_event_timers :=
                            AList.delete event_id (pending_event_timers s1)\<rparr>))
      in s2\<lparr>pending_event_payloads := AList.delete event_id (pending_event_payloads s2),
            internal_prev_last_event_id := Some event_id\<rparr>)"

definition snapshot_attrs :: "world \<Rightarrow> dash_attrs" where
  "snapshot_attrs w = (case w_dashboard w of None \<Rightarrow> empty_dash_attrs | Some st \<Rightarrow> ds_attrs st)"

definition coalesced_fire_callback :: "world \<Rightarrow> string \<Rightarrow> event_type \<Rightarrow> engine \<Rightarrow> engine" where
  "coalesced_fire_callback w event_id etype s =
     (let stored = map_of (pending_event_payloads s) event_id;
          pl = late_binding (snapshot_attrs w) event_id
                 (case stored of None \<Rightarrow> empty_payload | Some p \<Rightarrow> p);
          s1 = (if stored = None then s
                else s\<lparr>pending_event_payloads :=
                         AList.update event_id pl (pending_event_payloads s)\<rparr>);
          dispatched = (case etype of
                          Goal \<Rightarrow> coalesced_fire_goal w event_id pl s1
                        | Penalty \<Rightarrow> Some (coalesced_fire_penalty event_id pl s1))
      in case dispatched of
           None \<Rightarrow> s1
         | Some s2 \<Rightarrow> mark_fired event_id s2)"

subsection \<open>Scoreboard fallback\<close>

text \<open>
  \<^verbatim>\<open>pending_sb_goal_timers.pop(score_sig, None)\<close> followed by the cancellation of the
  timer it held, as both sensor callbacks do when an identified goal arrives.
\<close>

definition cancel_scoreboard_fallback :: "int \<times> int \<Rightarrow> engine \<Rightarrow> engine" where
  "cancel_scoreboard_fallback score_sig s =
     (case map_of (pending_sb_goal_timers s) score_sig of
        None \<Rightarrow> s
      | Some h \<Rightarrow>
          cancel_if_running h
            (s\<lparr>pending_sb_goal_timers := AList.delete score_sig (pending_sb_goal_timers s)\<rparr>))"

definition scoreboard_goal_fire_wrapper :: "config \<Rightarrow> world \<Rightarrow> sb_kwargs \<Rightarrow> engine \<Rightarrow> engine" where
  "scoreboard_goal_fire_wrapper cfg w kw s =
     (let s1 = fire_event
                 (ScoreboardGoal (k_kind kw = ''my'') (k_score_sig kw) (k_my_score kw) (k_opp_score kw)) s;
          s2 = s1\<lparr>sb_last_fired_home_away := Some (k_score_sig kw),
                  sb_goal_suppress_until_ts :=
                    w_now w + suppress_after_scoreboard_goal_seconds cfg\<rparr>
      in s2\<lparr>pending_sb_goal_timers := AList.delete (k_score_sig kw) (pending_sb_goal_timers s2)\<rparr>)"

subsection \<open>Win detection\<close>

definition fire_win :: "win_closure \<Rightarrow> engine \<Rightarrow> engine" where
  "fire_win wc s = (fire_event (TeamWin wc) s)\<lparr>internal_win_fired_game_id := wc_game_id wc\<rparr>"

definition process_nhl_api_win :: "config \<Rightarrow> world \<Rightarrow> api_context \<Rightarrow> engine \<Rightarrow> engine" where
  "process_nhl_api_win cfg w ctx s =
     (let game_id = c_game_id ctx;
          my_score = (if c_is_home ctx then c_home_score ctx else c_away_score ctx);
          opp_score = (if c_is_home ctx then c_away_score ctx else c_home_score ctx)
      in if \<not> truthy game_id then s
         else if my_score \<le> opp_score then s
         else if internal_win_fired_game_id s = game_id then s
         else if celebrate_win_only_if_home cfg \<and> \<not> c_is_home ctx then s
         else
           snd (run_in w
                  (FireWin \<lparr>wc_source = ApiWin, wc_game_id = game_id, wc_my_score = my_score,
                            wc_opp_score = opp_score, wc_is_home = c_is_home ctx\<rparr>)
                  (max (1 / 10) (seconds (get_broadcast_delay cfg (w_delay_entity w)))) s))"

subsection \<open>The NHL API sensor callback (Feed B)\<close>

definition build_nhl_api_context :: "api_attrs \<Rightarrow> string \<Rightarrow> api_context option" where
  "build_nhl_api_context attrs selected_team_abbrev =
     (let home_abbr = upper (str_or (a_home_abbr attrs) []);
          away_abbr = upper (str_or (a_away_abbr attrs) []);
          sensor_abbr = upper (str_or (a_team_abbrev attrs) []);
          target = (if selected_team_abbrev \<in> {home_abbr, away_abbr} then Some selected_team_abbrev
                    else if sensor_abbr \<in> {home_abbr, away_abbr} then Some sensor_abbr
                    else None)
      in case target of
           None \<Rightarrow> None
         | Some target_abbr \<Rightarrow>
             Some \<lparr>c_my_team_abbr = target_abbr,
                   c_opp_team_abbr = (if target_abbr = home_abbr then away_abbr else home_abbr),
                   c_is_home = (target_abbr = home_abbr),
                   c_home_abbr = home_abbr,
                   c_away_abbr = away_abbr,
                   c_home_score = (case a_home_score attrs of None \<Rightarrow> 0 | Some n \<Rightarrow> n),
                   c_away_score = (case a_away_score attrs of None \<Rightarrow> 0 | Some n \<Rightarrow> n),
                   c_game_id = a_game_id attrs\<rparr>)"

definition build_nhl_api_goal_payload :: "api_attrs \<Rightarrow> api_context \<Rightarrow> bool \<Rightarrow> payload" where
  "build_nhl_api_goal_payload attrs ctx is_my_event =
     (let period_ord = str_or (a_current_period attrs) (str_or (a_period attrs) []);
          time_remaining = str_or (a_time_remaining attrs) (str_or (a_goal_time attrs) ''--:--'');
          goal_team_abbr = (if is_my_event then c_my_team_abbr ctx else c_opp_team_abbr ctx)
      in \<lparr>p_is_my_event = Some is_my_event,
          p_my_team_abbr = Some (c_my_team_abbr ctx),
          p_opp_team_abbr = Some (c_opp_team_abbr ctx),
          p_home_abbr = Some (c_home_abbr ctx),
          p_away_abbr = Some (c_away_abbr ctx),
          p_period_ord = Some period_ord,
          p_time_remaining = Some time_remaining,
          p_my_score = Some (if c_is_home ctx then c_home_score ctx else c_away_score ctx),
          p_opp_score = Some (if c_is_home ctx then c_away_score ctx else c_home_score ctx),
          p_raw_last_event =
            Some \<lparr>le_type = Some ''goal'', le_team = Some goal_team_abbr,
                  le_scorer = Some (str_or (a_scoring_player_name attrs) ''a player''),
                  le_time_in_period = Some (str_or (a_goal_time attrs) time_remaining),
                  le_period_ord = Some period_ord\<rparr>,
          p_goal_team_abbr = Some goal_team_abbr\<rparr>)"

text \<open>The new-game block of the API callback: it leaves the scores to the lines after it.\<close>

definition api_session :: "api_context \<Rightarrow> engine \<Rightarrow> engine" where
  "api_session ctx s =
     (if truthy (c_game_id ctx) \<and> c_game_id ctx \<noteq> internal_prev_game_id_for_score_tracking s
      then reset_trackers
             ((clear_pending_events s)\<lparr>internal_prev_game_id_for_score_tracking := c_game_id ctx\<rparr>)
      else s)"

definition fire_puck_drop :: "api_context \<Rightarrow> engine \<Rightarrow> engine" where
  "fire_puck_drop ctx s =
     (if truthy (c_game_id ctx) \<and> internal_start_fired_game_id s = c_game_id ctx then s
      else (fire_event (PuckDrop (c_game_id ctx)) s)
             \<lparr>internal_start_fired_game_id := c_game_id ctx\<rparr>)"

text \<open>The goal block of the API callback.\<close>

definition api_goal :: "config \<Rightarrow> world \<Rightarrow> api_attrs \<Rightarrow> api_context \<Rightarrow> engine \<Rightarrow> engine" where
  "api_goal cfg w attrs ctx s =
     (case a_goal_event_id attrs of
        None \<Rightarrow> s
      | Some event_id \<Rightarrow>
          if event_id = [] then s
          else if event_id \<in> nhl_api_goal_ids_processed s then s
          else
            (let is_my_goal = fst (determine_goal_side attrs ctx
                                     (internal_prev_home_score s) (internal_prev_away_score s));
                 pl = build_nhl_api_goal_payload attrs ctx is_my_goal;
                 score_sig = (c_home_score ctx, c_away_score ctx);
                 s1 = cancel_scoreboard_fallback score_sig s;
                 s2 = s1\<lparr>sb_last_fired_home_away := Some score_sig,
                         sb_goal_suppress_until_ts :=
                           w_now w + suppress_after_scoreboard_goal_seconds cfg\<rparr>;
                 total_delay = max (1 / 10)
                                 (coalesce_goal_seconds cfg +
                                  seconds (get_broadcast_delay cfg (w_delay_entity w)));
                 s3 = schedule_event_coalesced w event_id Goal pl total_delay s2
             in s3\<lparr>nhl_api_goal_ids_processed := insert event_id (nhl_api_goal_ids_processed s3)\<rparr>))"

definition nhl_api_sensor_change_callback ::
  "config \<Rightarrow> world \<Rightarrow> api_state option \<Rightarrow> api_state option \<Rightarrow> engine \<Rightarrow> engine" where
  "nhl_api_sensor_change_callback cfg w old new s =
     (case new of
        None \<Rightarrow> s
      | Some nw \<Rightarrow>
          (case as_state nw of
             None \<Rightarrow> s
           | Some state \<Rightarrow>
               if state \<in> {''unknown'', ''unavailable''} then s
               else
                 (case w_selected_team_abbrev w of
                    None \<Rightarrow> s
                  | Some sel \<Rightarrow>
                      if sel = [] \<or> sel = ''NONE'' then s
                      else
                        (case build_nhl_api_context (as_attrs nw) sel of
                           None \<Rightarrow> s
                         | Some ctx \<Rightarrow>
                             (let s1 = api_session ctx s;
                                  previous_state = (case old of None \<Rightarrow> None | Some ol \<Rightarrow> as_state ol);
                                  s2 = (if state = ''LIVE'' \<and>
                                           previous_state \<notin> {Some ''LIVE'', Some ''CRIT''}
                                        then fire_puck_drop ctx s1 else s1);
                                  s3 = s2\<lparr>internal_prev_home_score := c_home_score ctx,
                                          internal_prev_away_score := c_away_score ctx\<rparr>;
                                  s4 = api_goal cfg w (as_attrs nw) ctx s3
                              in if state \<in> {''FINAL'', ''OFF''}
                                 then process_nhl_api_win cfg w ctx s4 else s4)))))"

subsection \<open>The dashboard sensor callback (Feed A)\<close>

definition score_or_0 :: "int option \<Rightarrow> int" where
  "score_or_0 v = (case v of None \<Rightarrow> 0 | Some n \<Rightarrow> n)"

text \<open>The game-id block at the head of the callback.\<close>

definition dashboard_session :: "bool \<Rightarrow> dash_attrs \<Rightarrow> engine \<Rightarrow> engine" where
  "dashboard_session is_test new_attrs s =
     (let current_game_id = d_game_id new_attrs in
      if truthy current_game_id \<and> current_game_id \<noteq> internal_prev_game_id_for_score_tracking s
      then reset_trackers
             ((clear_pending_events s)
                \<lparr>internal_prev_home_score := score_or_0 (d_home_score new_attrs),
                 internal_prev_away_score := score_or_0 (d_away_score new_attrs),
                 internal_prev_game_id_for_score_tracking := current_game_id\<rparr>)
      else if \<not> truthy current_game_id \<and> \<not> is_test
      then reset_trackers
             ((clear_pending_events s)
                \<lparr>internal_prev_home_score := 0, internal_prev_away_score := 0,
                 internal_prev_game_id_for_score_tracking := None\<rparr>)
      else s)"

text \<open>The local variables the callback computes once it knows the tracked team's side.\<close>

record sides =
  my_team_abbr :: string
  opp_team_abbr :: string
  my_score_new :: int
  opp_score_new :: int
  my_score_prev :: int
  opp_score_prev :: int
  is_home :: bool

definition dashboard_sides :: "world \<Rightarrow> dash_attrs \<Rightarrow> engine \<Rightarrow> sides option" where
  "dashboard_sides w new_attrs s =
     (let selected_abbr = w_selected_team_abbrev w;
          home_abbr = upper (str_or (d_home_abbr new_attrs) ''HME'');
          away_abbr = upper (str_or (d_away_abbr new_attrs) ''AWY'')
      in if selected_abbr = Some home_abbr then
           Some \<lparr>my_team_abbr = home_abbr, opp_team_abbr = away_abbr,
                 my_score_new = score_or_0 (d_home_score new_attrs),
                 opp_score_new = score_or_0 (d_away_score new_attrs),
                 my_score_prev = internal_prev_home_score s,
                 opp_score_prev = internal_prev_away_score s,
                 is_home = True\<rparr>
         else if selected_abbr = Some away_abbr then
           Some \<lparr>my_team_abbr = away_abbr, opp_team_abbr = home_abbr,
                 my_score_new = score_or_0 (d_away_score new_attrs),
                 opp_score_new = score_or_0 (d_home_score new_attrs),
                 my_score_prev = internal_prev_away_score s,
                 opp_score_prev = internal_prev_home_score s,
                 is_home = False\<rparr>
         else None)"

definition my_scored :: "sides \<Rightarrow> bool" where
  "my_scored sd = (my_score_new sd > my_score_prev sd)"

definition opp_scored :: "sides \<Rightarrow> bool" where
  "opp_scored sd = (opp_score_new sd > opp_score_prev sd)"

definition score_sig_of :: "dash_attrs \<Rightarrow> int \<times> int" where
  "score_sig_of new_attrs = (score_or_0 (d_home_score new_attrs), score_or_0 (d_away_score new_attrs))"

definition dashboard_goal_payload :: "dash_attrs \<Rightarrow> sides \<Rightarrow> last_event \<Rightarrow> payload" where
  "dashboard_goal_payload new_attrs sd lev =
     (let evt_team = upper (str_or (le_team lev) []);
          is_my_event = (if evt_team \<noteq> [] then evt_team = my_team_abbr sd else my_scored sd);
          goal_team_abbr = (if evt_team \<noteq> [] then evt_team
                            else if is_my_event then my_team_abbr sd else opp_team_abbr sd)
      in \<lparr>p_is_my_event = Some is_my_event,
          p_my_team_abbr = Some (my_team_abbr sd),
          p_opp_team_abbr = Some (opp_team_abbr sd),
          p_home_abbr = Some (upper (str_or (d_home_abbr new_attrs) ''HME'')),
          p_away_abbr = Some (upper (str_or (d_away_abbr new_attrs) ''AWY'')),
          p_period_ord = d_period_ord new_attrs,
          p_time_remaining = d_time_remaining new_attrs,
          p_my_score = Some (my_score_new sd),
          p_opp_score = Some (opp_score_new sd),
          p_raw_last_event = Some lev,
          p_goal_team_abbr = Some goal_team_abbr\<rparr>)"

definition dashboard_penalty_payload :: "dash_attrs \<Rightarrow> sides \<Rightarrow> last_event \<Rightarrow> payload" where
  "dashboard_penalty_payload new_attrs sd lev =
     empty_payload
       \<lparr>p_my_team_abbr := Some (my_team_abbr sd),
        p_opp_team_abbr := Some (opp_team_abbr sd),
        p_period_ord := d_period_ord new_attrs,
        p_time_remaining := d_time_remaining new_attrs,
        p_raw_last_event := Some lev\<rparr>"

text \<open>
  The identified-event block: the result says whether \<^verbatim>\<open>scheduled_by_event\<close> was set.
\<close>

definition dashboard_event ::
  "config \<Rightarrow> world \<Rightarrow> dash_state \<Rightarrow> sides \<Rightarrow> engine \<Rightarrow> bool \<times> engine" where
  "dashboard_event cfg w nw sd s =
     (let new_attrs = ds_attrs nw in
      case (d_last_event new_attrs, d_last_event_id new_attrs) of
        (Some lev, Some last_event_id) \<Rightarrow>
          if upper (ds_state nw) \<in> {''LIVE'', ''CRIT''} \<and> last_event_id \<noteq> [] \<and>
             last_event_id \<notin> fired_event_ids s
          then
            (let evt_type = lower (str_or (le_type lev) []) in
             if evt_type = ''goal'' then
               (let s1 = cancel_scoreboard_fallback (score_sig_of new_attrs) s;
                    delay = max (1 / 10)
                              (coalesce_goal_seconds cfg +
                               seconds (get_broadcast_delay cfg (w_delay_entity w)))
                in (True, schedule_event_coalesced w last_event_id Goal
                            (dashboard_goal_payload new_attrs sd lev) delay s1))
             else if evt_type = ''penalty'' then
               (let delay = max (1 / 10)
                              (coalesce_penalty_seconds cfg +
                               seconds (get_broadcast_delay cfg (w_delay_entity w)))
                in (True, schedule_event_coalesced w last_event_id Penalty
                            (dashboard_penalty_payload new_attrs sd lev) delay s))
             else (False, s))
          else (False, s)
      | _ \<Rightarrow> (False, s))"

text \<open>The scoreboard-fallback block.\<close>

definition schedule_scoreboard_goal ::
  "config \<Rightarrow> world \<Rightarrow> dash_attrs \<Rightarrow> sides \<Rightarrow> string \<Rightarrow> engine \<Rightarrow> engine" where
  "schedule_scoreboard_goal cfg w new_attrs sd kind s =
     (let delay = seconds (get_broadcast_delay cfg (w_delay_entity w));
          score_sig = score_sig_of new_attrs;
          (handle, s1) =
            run_in w
              (ScoreboardGoalFire
                 \<lparr>k_kind = kind, k_score_sig = score_sig,
                  k_my_score = my_score_new sd, k_opp_score = opp_score_new sd,
                  k_period_ord = d_period_ord new_attrs,
                  k_time_remaining = d_time_remaining new_attrs\<rparr>)
              (max (1 / 10) delay) s
      in s1\<lparr>pending_sb_goal_timers := AList.update score_sig handle (pending_sb_goal_timers s1)\<rparr>)"

definition dashboard_fallback ::
  "config \<Rightarrow> world \<Rightarrow> dash_attrs \<Rightarrow> sides \<Rightarrow> bool \<Rightarrow> engine \<Rightarrow> engine" where
  "dashboard_fallback cfg w new_attrs sd scheduled_by_event s =
     (if scheduled_by_event then s
      else if my_scored sd then schedule_scoreboard_goal cfg w new_attrs sd ''my'' s
      else if opp_scored sd \<and> truthy (opponent_goal_event_to_fire cfg)
      then schedule_scoreboard_goal cfg w new_attrs sd ''opp'' s
      else s)"

text \<open>The win block.\<close>

definition dashboard_win :: "config \<Rightarrow> world \<Rightarrow> dash_attrs \<Rightarrow> sides \<Rightarrow> engine \<Rightarrow> engine" where
  "dashboard_win cfg w new_attrs sd s =
     (let current_game_id = d_game_id new_attrs;
          new_game_state_api = (case d_game_state_api new_attrs of None \<Rightarrow> ''UNKNOWN'' | Some g \<Rightarrow> g);
          my_team_won = (new_game_state_api \<in> {''FINAL'', ''OFF''} \<and>
                         my_score_new sd > opp_score_new sd)
      in if my_team_won \<and> truthy current_game_id \<and>
            internal_win_fired_game_id s \<noteq> current_game_id \<and>
            (\<not> celebrate_win_only_if_home cfg \<or> is_home sd)
         then snd (run_in w
                     (FireWin \<lparr>wc_source = DashboardWin, wc_game_id = current_game_id,
                               wc_my_score = my_score_new sd, wc_opp_score = opp_score_new sd,
                               wc_is_home = is_home sd\<rparr>)
                     (max (1 / 10) (seconds (get_broadcast_delay cfg (w_delay_entity w)))) s)
         else s)"

text \<open>The last lines: the score baseline follows the observation when a side scored.\<close>

definition dashboard_baseline :: "dash_attrs \<Rightarrow> sides \<Rightarrow> engine \<Rightarrow> engine" where
  "dashboard_baseline new_attrs sd s =
     (if d_game_id new_attrs = internal_prev_game_id_for_score_tracking s \<and>
         (my_scored sd \<or> opp_scored sd)
      then s\<lparr>internal_prev_home_score := score_or_0 (d_home_score new_attrs),
             internal_prev_away_score := score_or_0 (d_away_score new_attrs)\<rparr>
      else s)"

definition dashboard_sensor_change_callback ::
  "config \<Rightarrow> world \<Rightarrow> bool \<Rightarrow> dash_state option \<Rightarrow> engine \<Rightarrow> engine" where
  "dashboard_sensor_change_callback cfg w is_test new s =
     (case new of
        None \<Rightarrow> s
      | Some nw \<Rightarrow>
          if ds_state nw = ''unavailable'' then s
          else
            (let new_attrs = ds_attrs nw;
                 s1 = dashboard_session is_test new_attrs s
             in case dashboard_sides w new_attrs s1 of
                  None \<Rightarrow> s1
                | Some sd \<Rightarrow>
                    (let (scheduled_by_event, s2) = dashboard_event cfg w nw sd s1;
                         s3 = dashboard_fallback cfg w new_attrs sd scheduled_by_event s2;
                         s4 = dashboard_win cfg w new_attrs sd s3
                     in dashboard_baseline new_attrs sd s4)))"

subsection \<open>The event loop\<close>

text \<open>
  Everything the app does is one of these callbacks, run one at a time: an update of either
  sensor, a timer that falls due, a change of the team preset, the initial state load.
\<close>

datatype input =
    DashboardUpdate "dash_state option" bool
  | ApiUpdate "api_state option" "api_state option"
  | TimerFires nat
  | PresetChange "string option" "string option"
  | InitialStateLoad "dash_state option"

definition run_callback :: "config \<Rightarrow> world \<Rightarrow> callback \<Rightarrow> engine \<Rightarrow> engine" where
  "run_callback cfg w cb s =
     (case cb of
        CoalescedFire event_id etype \<Rightarrow> coalesced_fire_callback w event_id etype s
      | ScoreboardGoalFire kw \<Rightarrow> scoreboard_goal_fire_wrapper cfg w kw s
      | FireWin wc \<Rightarrow> fire_win wc s)"

text \<open>
  A timer fires when it is live and due; the scheduler drops it and runs its callback.
\<close>

definition timer_fires :: "config \<Rightarrow> world \<Rightarrow> nat \<Rightarrow> engine \<Rightarrow> engine" where
  "timer_fires cfg w h s =
     (case timers s h of
        None \<Rightarrow> s
      | Some (due, cb) \<Rightarrow>
          if due \<le> w_now w then run_callback cfg w cb (s\<lparr>timers := (timers s)(h := None)\<rparr>)
          else s)"

definition step :: "config \<Rightarrow> world \<times> input \<Rightarrow> engine \<Rightarrow> engine" where
  "step cfg wi s =
     (case snd wi of
        DashboardUpdate new is_test \<Rightarrow> dashboard_sensor_change_callback cfg (fst wi) is_test new s
      | ApiUpdate old new \<Rightarrow> nhl_api_sensor_change_callback cfg (fst wi) old new s
      | TimerFires h \<Rightarrow> timer_fires cfg (fst wi) h s
      | PresetChange old new \<Rightarrow> team_preset_change_callback old new s
      | InitialStateLoad init \<Rightarrow> process_initial_state init s)"

definition run :: "config \<Rightarrow> (world \<times> input) list \<Rightarrow> engine \<Rightarrow> engine" where
  "run cfg trace s = fold (step cfg) trace s"

subsection \<open>Well-formed states\<close>

text \<open>
  Every handle stored in the two timer dicts was issued by \<^verbatim>\<open>run_in\<close>: it is older than
  the next fresh handle.
\<close>

definition issued :: "engine \<Rightarrow> bool" where
  "issued s =
     (\<forall>h \<in> snd ` set (pending_event_timers s) \<union> snd ` set (pending_sb_goal_timers s).
        h < next_handle s)"



subsection \<open>Counting dispatches\<close>

text \<open>The event id of a coalesced dispatch.\<close>

fun coalesced_id :: "out_event \<Rightarrow> string option" where
  "coalesced_id (CoalescedGoal e pl) = Some e"
| "coalesced_id (CoalescedPenalty e pl) = Some e"
| "coalesced_id (ScoreboardGoal my sig ms os) = None"
| "coalesced_id (TeamWin wc) = None"
| "coalesced_id (PuckDrop g) = None"

text \<open>How often the event id \<open>e\<close> was dispatched in session number \<open>k\<close>.\<close>

definition dispatches :: "nat \<Rightarrow> string \<Rightarrow> (nat \<times> out_event) list \<Rightarrow> nat" where
  "dispatches k e out = length (filter (\<lambda>(k', ev). k' = k \<and> coalesced_id ev = Some e) out)"

text \<open>How often it was dispatched at all.\<close>

definition dispatches_ever :: "string \<Rightarrow> (nat \<times> out_event) list \<Rightarrow> nat" where
  "dispatches_ever e out = length (filter (\<lambda>(k', ev). coalesced_id ev = Some e) out)"

text \<open>
  The invariant of the coalescing scheduler, in four parts. A live coalesced timer is the
  one its event id has in the pending dict, and its event id is not in the fired-event log.
\<close>

definition timers_ok :: "engine \<Rightarrow> bool" where
  "timers_ok s =
     (\<forall>h d e ty. timers s h = Some (d, CoalescedFire e ty) \<longrightarrow>
        map_of (pending_event_timers s) e = Some h \<and> e \<notin> fired_event_ids s)"

text \<open>No timer lives under a handle that is not issued yet.\<close>

definition handles_ok :: "engine \<Rightarrow> bool" where
  "handles_ok s = (\<forall>h. next_handle s \<le> h \<longrightarrow> timers s h = None)"

text \<open>
  No event id is dispatched twice in one session, an event id dispatched in the current
  session is in the fired-event log, and nothing is stamped with a session to come.
\<close>

definition log_ok :: "engine \<Rightarrow> bool" where
  "log_ok s =
     ((\<forall>k e. dispatches k e (emitted s) \<le> 1) \<and>
      (\<forall>e. e \<notin> fired_event_ids s \<longrightarrow> dispatches (session s) e (emitted s) = 0) \<and>
      (\<forall>k e. session s < k \<longrightarrow> dispatches k e (emitted s) = 0))"

definition coalescing_inv :: "engine \<Rightarrow> bool" where
  "coalescing_inv s = (timers_ok s \<and> handles_ok s \<and> log_ok s \<and> issued s)"

subsection \<open>The resolver's precedence, as the specification words it\<close>





subsection \<open>The merge of payloads, as the specification words it\<close>

text \<open>
  A non-destructive overlay: a field of the newer payload that is not null replaces the
  older value, a field that is absent or null keeps it.
\<close>

definition overlay :: "'a option \<Rightarrow> 'a option \<Rightarrow> 'a option" where
  "overlay older newer = (case newer of None \<Rightarrow> older | Some v \<Rightarrow> Some v)"

definition merge_payload :: "payload \<Rightarrow> payload \<Rightarrow> payload" where
  "merge_payload older newer =
     \<lparr>p_is_my_event = overlay (p_is_my_event older) (p_is_my_event newer),
      p_my_team_abbr = overlay (p_my_team_abbr older) (p_my_team_abbr newer),
      p_opp_team_abbr = overlay (p_opp_team_abbr older) (p_opp_team_abbr newer),
      p_home_abbr = overlay (p_home_abbr older) (p_home_abbr newer),
      p_away_abbr = overlay (p_away_abbr older) (p_away_abbr newer),
      p_period_ord = overlay (p_period_ord older) (p_period_ord newer),
      p_time_remaining = overlay (p_time_remaining older) (p_time_remaining newer),
      p_my_score = overlay (p_my_score older) (p_my_score newer),
      p_opp_score = overlay (p_opp_score older) (p_opp_score newer),
      p_raw_last_event = overlay (p_raw_last_event older) (p_raw_last_event newer),
      p_goal_team_abbr = overlay (p_goal_team_abbr older) (p_goal_team_abbr newer)\<rparr>"


subsection \<open>Concrete inputs\<close>

text \<open>A configuration with the defaults of \<^verbatim>\<open>initialize\<close> and a static delay of 30 s.\<close>

definition example_config :: config where
  "example_config =
     \<lparr>coalesce_goal_seconds = 13 / 10, coalesce_penalty_seconds = 2,
      suppress_after_scoreboard_goal_seconds = 5,
      broadcast_delay_input_number = Some ''input_number.nhl_broadcast_delay'',
      broadcast_delay_seconds = Fin 30,
      celebrate_win_only_if_home = True,
      opponent_goal_event_to_fire = Some ''nhl_opponent_goal_event''\<rparr>"

text \<open>Toronto at home against Montreal, 2-1, with nothing said about a goal.\<close>

definition example_api_attrs :: api_attrs where
  "example_api_attrs =
     \<lparr>a_game_id = Some ''2023020001'', a_home_abbr = Some ''TOR'', a_away_abbr = Some ''MTL'',
      a_team_abbrev = Some ''TOR'', a_home_score = Some 2, a_away_score = Some 1,
      a_goal_event_id = None, a_goal_team_abbrev = None, a_goal_team_abbr = None,
      a_goal_tracked_team = FlagAbsent, a_scoring_player_name = None,
      a_current_period = Some ''2nd'', a_period = None,
      a_time_remaining = Some ''12:00'', a_goal_time = None\<rparr>"

definition example_api_context :: api_context where
  "example_api_context =
     \<lparr>c_my_team_abbr = ''TOR'', c_opp_team_abbr = ''MTL'', c_is_home = True,
      c_home_abbr = ''TOR'', c_away_abbr = ''MTL'', c_home_score = 2, c_away_score = 1,
      c_game_id = Some ''2023020001''\<rparr>"

text \<open>A clock reading with the delay entity at 0 s and Toronto selected.\<close>

definition example_world :: "real \<Rightarrow> world" where
  "example_world t =
     \<lparr>w_now = t, w_delay_entity = Returns (HStr ''0.0'' (Some (Fin 0))),
      w_selected_team_abbrev = Some ''TOR'', w_dashboard = None\<rparr>"

text \<open>The dashboard sensor, live, Toronto 1 Montreal 0 in the first period, no event.\<close>

definition example_dash_attrs :: dash_attrs where
  "example_dash_attrs =
     \<lparr>d_game_id = Some ''2023020001'', d_home_abbr = Some ''TOR'', d_away_abbr = Some ''MTL'',
      d_home_score = Some 1, d_away_score = Some 0,
      d_last_event = None, d_last_event_id = None,
      d_period_ord = Some ''1st'', d_time_remaining = Some ''12:00'',
      d_game_state_api = Some ''LIVE''\<rparr>"

definition example_dash_state :: dash_state where
  "example_dash_state = \<lparr>ds_state = ''LIVE'', ds_attrs = example_dash_attrs\<rparr>"

text \<open>The same game as the goal that made it 1-0 is identified as event 55.\<close>

definition example_goal_event :: last_event where
  "example_goal_event =
     \<lparr>le_type = Some ''goal'', le_team = Some ''TOR'', le_scorer = Some ''A. Matthews'',
      le_time_in_period = Some ''08:00'', le_period_ord = Some ''1st''\<rparr>"

definition example_goal_state :: dash_state where
  "example_goal_state =
     \<lparr>ds_state = ''LIVE'',
      ds_attrs = example_dash_attrs\<lparr>d_last_event := Some example_goal_event,
                                     d_last_event_id := Some ''55''\<rparr>\<rparr>"

text \<open>A session of that game at 0-0, as a reset leaves it.\<close>

definition example_session :: engine where
  "example_session =
     initialize\<lparr>internal_prev_game_id_for_score_tracking := Some ''2023020001'', session := 1\<rparr>"

text \<open>The sides of that game as the dashboard callback computes them from 0-0.\<close>

definition example_sides :: sides where
  "example_sides =
     \<lparr>my_team_abbr = ''TOR'', opp_team_abbr = ''MTL'', my_score_new = 1, opp_score_new = 0,
      my_score_prev = 0, opp_score_prev = 0, is_home = True\<rparr>"

text \<open>
  The payload the dashboard callback builds for event 55, and the one it builds on the
  next poll, when the sensor reports no period and no clock.
\<close>

definition example_payload :: payload where
  "example_payload = dashboard_goal_payload (ds_attrs example_goal_state) example_sides example_goal_event"

definition example_payload_later :: payload where
  "example_payload_later =
     dashboard_goal_payload
       ((ds_attrs example_goal_state)\<lparr>d_period_ord := None, d_time_remaining := None\<rparr>)
       example_sides example_goal_event"

text \<open>
  The dashboard sensor a moment later: still event 55, the clock has moved, the scorer's
  name is complete and a second goal has made it 2-0.
\<close>

definition example_fresh_state :: dash_state where
  "example_fresh_state =
     \<lparr>ds_state = ''LIVE'',
      ds_attrs = example_dash_attrs
        \<lparr>d_home_score := Some 2,
         d_last_event := Some (example_goal_event\<lparr>le_scorer := Some ''Auston Matthews''\<rparr>),
         d_last_event_id := Some ''55'',
         d_time_remaining := Some ''11:40''\<rparr>\<rparr>"

text \<open>
  The session of the first game in the middle of play: Toronto leads 1-0, event 54 has
  been dispatched, event 55 is pending, a scoreboard fallback for 1-0 is pending, and a
  suppression window for 1-0 is open until second 5.
\<close>

definition example_busy_session :: engine where
  "example_busy_session =
     example_session
       \<lparr>internal_prev_home_score := 1,
        nhl_api_goal_ids_processed := {''54''},
        pending_event_timers := [(''55'', 0)],
        pending_event_payloads := [(''55'', example_payload)],
        fired_event_ids := {''54''},
        sb_goal_suppress_until_ts := 5,
        sb_last_fired_home_away := Some (1, 0),
        pending_sb_goal_timers := [((1, 0), 1)],
        timers := [0 \<mapsto> (13 / 10, CoalescedFire ''55'' Goal),
                   1 \<mapsto> (1 / 10, ScoreboardGoalFire
                                 \<lparr>k_kind = ''my'', k_score_sig = (1, 0), k_my_score = 1,
                                  k_opp_score = 0, k_period_ord = Some ''1st'',
                                  k_time_remaining = Some ''12:00''\<rparr>)],
        next_handle := 2\<rparr>"

text \<open>The next game, already at 3-1 when it is first seen, on either feed.\<close>

definition example_next_game_state :: dash_state where
  "example_next_game_state =
     \<lparr>ds_state = ''LIVE'',
      ds_attrs = example_dash_attrs
        \<lparr>d_game_id := Some ''2023020002'', d_home_score := Some 3, d_away_score := Some 1\<rparr>\<rparr>"

definition example_next_game_api :: api_state where
  "example_next_game_api =
     \<lparr>as_state = Some ''LIVE'',
      as_attrs = example_api_attrs
        \<lparr>a_game_id := Some ''2023020002'', a_home_score := Some 3, a_away_score := Some 1\<rparr>\<rparr>"

text \<open>
  The API feed lagging behind: the first game again, still reported at 0-0 while the
  session's baseline is already 1-0. And the dashboard sensor reporting 0-0 for it.
\<close>

definition example_stale_api :: api_state where
  "example_stale_api =
     \<lparr>as_state = Some ''LIVE'',
      as_attrs = example_api_attrs\<lparr>a_home_score := Some 0, a_away_score := Some 0\<rparr>\<rparr>"

definition example_lower_state :: dash_state where
  "example_lower_state =
     \<lparr>ds_state = ''LIVE'', ds_attrs = example_dash_attrs\<lparr>d_home_score := Some 0\<rparr>\<rparr>"

text \<open>A clock reading with the delay entity at 30 s.\<close>

definition delayed_world :: "real \<Rightarrow> world" where
  "delayed_world t = (example_world t)\<lparr>w_delay_entity := Returns (HStr ''30.0'' (Some (Fin 30)))\<rparr>"

text \<open>
  The first game is over, Toronto has won 3-2 at home; the session's baseline is the final
  score, and the dashboard sensor reports the terminal state on every poll.
\<close>

definition example_final_state :: dash_state where
  "example_final_state =
     \<lparr>ds_state = ''FINAL'',
      ds_attrs = example_dash_attrs
        \<lparr>d_home_score := Some 3, d_away_score := Some 2, d_game_state_api := Some ''FINAL'',
         d_time_remaining := Some ''FINAL''\<rparr>\<rparr>"

definition example_final_session :: engine where
  "example_final_session =
     example_session\<lparr>internal_prev_home_score := 3, internal_prev_away_score := 2\<rparr>"

definition example_win :: win_closure where
  "example_win =
     \<lparr>wc_source = DashboardWin, wc_game_id = Some ''2023020001'', wc_my_score = 3,
      wc_opp_score = 2, wc_is_home = True\<rparr>"

text \<open>
  Two polls of the terminal state, ten seconds apart, and the two timers they started
  falling due thirty seconds after each.
\<close>

definition example_final_trace :: "(world \<times> input) list" where
  "example_final_trace =
     [(delayed_world 0, DashboardUpdate (Some example_final_state) False),
      (delayed_world 10, DashboardUpdate (Some example_final_state) False),
      (delayed_world 30, TimerFires 0),
      (delayed_world 40, TimerFires 1)]"

text \<open>
  One goal reported twice by the scoreboard: the dashboard sensor shows 1-0, the fallback
  fires, the lagging API feed then reports 0-0, and the next dashboard poll shows 1-0
  again.
\<close>

definition example_repeat_trace :: "(world \<times> input) list" where
  "example_repeat_trace =
     [(example_world 0, DashboardUpdate (Some example_dash_state) False),
      (example_world (1 / 10), TimerFires 0),
      (example_world 1, ApiUpdate (Some example_stale_api) (Some example_stale_api)),
      (example_world 2, DashboardUpdate (Some example_dash_state) False),
      (example_world (21 / 10), TimerFires 1)]"

text \<open>
  The first game at 1-0 with the scoreboard fallback for 1-0 pending, and the API feed
  reporting that goal as event 55.
\<close>

definition example_fallback_session :: engine where
  "example_fallback_session =
     example_session
       \<lparr>internal_prev_home_score := 1,
        pending_sb_goal_timers := [((1, 0), 0)],
        timers := [0 \<mapsto> (30, ScoreboardGoalFire
                                 \<lparr>k_kind = ''my'', k_score_sig = (1, 0), k_my_score = 1,
                                  k_opp_score = 0, k_period_ord = Some ''1st'',
                                  k_time_remaining = Some ''12:00''\<rparr>)],
        next_handle := 1\<rparr>"

definition example_goal_api :: api_state where
  "example_goal_api =
     \<lparr>as_state = Some ''LIVE'',
      as_attrs = example_api_attrs
        \<lparr>a_home_score := Some 1, a_away_score := Some 0, a_goal_event_id := Some ''55'',
         a_goal_team_abbrev := Some ''TOR'', a_scoring_player_name := Some ''A. Matthews''\<rparr>\<rparr>"

text \<open>
  The first game after the scoreboard fallback has dispatched the 1-0 goal at second 30,
  with the same goal pending as event 55.
\<close>

definition example_suppressing_session :: engine where
  "example_suppressing_session =
     example_session
       \<lparr>internal_prev_home_score := 1,
        pending_event_timers := [(''55'', 1)],
        pending_event_payloads := [(''55'', example_payload)],
        sb_goal_suppress_until_ts := 35,
        sb_last_fired_home_away := Some (1, 0),
        timers := [1 \<mapsto> (313 / 10, CoalescedFire ''55'' Goal)],
        next_handle := 2,
        emitted := [(1, ScoreboardGoal True (1, 0) 1 0)]\<rparr>"

text \<open>
  The dashboard sensor between two refreshes, with no attributes at all; and a run in which
  event 55 is observed and dispatched, the sensor goes blank for one poll, and the same game
  with the same event comes back.
\<close>

definition example_blank_state :: dash_state where
  "example_blank_state = \<lparr>ds_state = ''unknown'', ds_attrs = empty_dash_attrs\<rparr>"

definition example_twice_trace :: "(world \<times> input) list" where
  "example_twice_trace =
     [(example_world 0, DashboardUpdate (Some example_goal_state) False),
      (example_world (13 / 10), TimerFires 0),
      (example_world 5, DashboardUpdate (Some example_blank_state) False),
      (example_world 10, DashboardUpdate (Some example_goal_state) False),
      (example_world (113 / 10), TimerFires 1)]"

text \<open>
  Event 55 observed on three polls of the dashboard sensor while it is pending; and the
  same run continued by its timer, by one more observation from each feed, and by the
  timer's handle once more.
\<close>

definition example_pending_trace :: "(world \<times> input) list" where
  "example_pending_trace =
     [(example_world 0, DashboardUpdate (Some example_goal_state) False),
      (example_world (1 / 2), DashboardUpdate (Some example_goal_state) False),
      (example_world 1, DashboardUpdate (Some example_goal_state) False)]"

definition example_once_trace :: "(world \<times> input) list" where
  "example_once_trace =
     example_pending_trace @
     [(example_world (13 / 10), TimerFires 0),
      (example_world 2, DashboardUpdate (Some example_goal_state) False),
      (example_world 3, ApiUpdate (Some example_goal_api) (Some example_goal_api)),
      (example_world 4, TimerFires 0)]"

section \<open>Properties\<close>

subsection \<open>The broadcast delay is clamped\<close>

lemma clamp_delay_range: "\<exists>r. clamp_delay v = Fin r \<and> 0 \<le> r \<and> r \<le> 120"
  by (cases v) (auto simp: clamp_delay_def py_min_def py_max_def)

lemma clamp_delay_Fin: "clamp_delay (Fin x) = Fin (max 0 (min 120 x))"
  by (auto simp: clamp_delay_def py_min_def py_max_def)

lemma get_broadcast_delay_cases:
  "get_broadcast_delay cfg rd =
     (if delay_entity_unusable cfg rd then clamp_delay (broadcast_delay_seconds cfg)
      else clamp_delay (the (delay_entity_number rd)))"
  by (auto simp: get_broadcast_delay_def broadcast_delay_try_def delay_entity_unusable_def
      delay_entity_number_def split: ha_read.splits ha_value.splits option.splits)

text \<open>
  C10. For every configuration and every answer of the delay entity (an exception
  included), \<^verbatim>\<open>_get_broadcast_delay\<close> returns a finite number of seconds in the closed
  range from 0 to 120. A number read from the entity is clamped to that range; when the
  entity is unset, unreadable or not numeric, the configured \<^verbatim>\<open>broadcast_delay_seconds\<close>
  is used, clamped to the same range. The function is total: no answer makes it raise.
\<close>

theorem broadcast_delay_in_range:
  "(\<exists>r. get_broadcast_delay cfg rd = Fin r \<and> 0 \<le> r \<and> r \<le> 120) \<and>
   (delay_entity_unusable cfg rd \<longrightarrow>
      get_broadcast_delay cfg rd = clamp_delay (broadcast_delay_seconds cfg)) \<and>
   (\<not> delay_entity_unusable cfg rd \<longrightarrow>
      (\<exists>x. delay_entity_number rd = Some x \<and> get_broadcast_delay cfg rd = clamp_delay x))"
proof (intro conjI impI)
  show "\<exists>r. get_broadcast_delay cfg rd = Fin r \<and> 0 \<le> r \<and> r \<le> 120"
    unfolding get_broadcast_delay_cases by (simp add: clamp_delay_range)
next
  assume "delay_entity_unusable cfg rd"
  then show "get_broadcast_delay cfg rd = clamp_delay (broadcast_delay_seconds cfg)"
    by (simp add: get_broadcast_delay_cases)
next
  assume u: "\<not> delay_entity_unusable cfg rd"
  then have "\<exists>x. delay_entity_number rd = Some x"
    by (auto simp: delay_entity_unusable_def delay_entity_number_def
        split: ha_read.splits ha_value.splits)
  with u show "\<exists>x. delay_entity_number rd = Some x \<and> get_broadcast_delay cfg rd = clamp_delay x"
    by (auto simp: get_broadcast_delay_cases)
qed

theorem broadcast_delay_in_range_witness:
  "get_broadcast_delay example_config (Returns (HStr ''150'' (Some (Fin 150)))) = Fin 120 \<and>
   delay_entity_unusable example_config (Returns (HStr ''Unavailable'' None)) \<and>
   get_broadcast_delay example_config (Returns (HStr ''Unavailable'' None)) = Fin 30 \<and>
   get_broadcast_delay example_config Raises = Fin 30 \<and>
   get_broadcast_delay (example_config\<lparr>broadcast_delay_seconds := NaN\<rparr>) Raises = Fin 120"
  using broadcast_delay_in_range [of example_config "Returns (HStr ''150'' (Some (Fin 150)))"]
    broadcast_delay_in_range [of example_config "Returns (HStr ''Unavailable'' None)"]
    broadcast_delay_in_range [of example_config Raises]
  by (simp add: delay_entity_unusable_def delay_entity_number_def example_config_def truthy_def
      lower_def char_lower_def clamp_delay_def py_min_def py_max_def get_broadcast_delay_def
      broadcast_delay_try_def)

subsection \<open>Goal-side resolution\<close>



subsection \<open>Evaluation\<close>

text \<open>The definitions a concrete run unfolds.\<close>

lemmas value_defs = Let_def upper_def lower_def char_upper_def char_lower_def str_or_def
  truthy_def score_or_0_def opt_or_def

lemmas example_defs = example_config_def example_world_def example_dash_attrs_def
  example_dash_state_def example_goal_event_def example_goal_state_def example_session_def
  initialize_def example_api_attrs_def example_api_context_def example_sides_def
  example_payload_def example_payload_later_def example_fresh_state_def
  example_busy_session_def example_next_game_state_def example_next_game_api_def
  example_stale_api_def example_lower_state_def delayed_world_def example_final_state_def
  example_final_session_def example_win_def example_final_trace_def
  example_repeat_trace_def example_fallback_session_def example_goal_api_def
  example_suppressing_session_def example_blank_state_def example_twice_trace_def
  example_pending_trace_def example_once_trace_def

lemmas engine_defs = dashboard_sensor_change_callback_def dashboard_session_def
  dashboard_sides_def dashboard_event_def dashboard_fallback_def dashboard_win_def
  dashboard_baseline_def my_scored_def opp_scored_def schedule_scoreboard_goal_def run_in_def
  score_sig_of_def get_broadcast_delay_def broadcast_delay_try_def clamp_delay_def py_min_def
  py_max_def clear_pending_events_def reset_trackers_def cancel_if_running_def cancel_timer_def
  timer_running_def schedule_event_coalesced_def dashboard_goal_payload_def
  dashboard_penalty_payload_def cancel_scoreboard_fallback_def empty_payload_def
  coalesced_fire_callback_def mark_fired_def snapshot_attrs_def coalesced_fire_goal_def
  has_goal_keys_def goal_suppressed_def coalesced_fire_penalty_def late_binding_def
  overlay_scores_def fire_event_def empty_dash_attrs_def scoreboard_goal_fire_wrapper_def
  fire_win_def run_callback_def timer_fires_def step_def run_def
  nhl_api_sensor_change_callback_def build_nhl_api_context_def build_nhl_api_goal_payload_def
  api_session_def fire_puck_drop_def api_goal_def process_nhl_api_win_def
  determine_goal_side_def team_preset_change_callback_def process_initial_state_def

subsection \<open>The delay of the scoreboard fallback\<close>


lemma dashboard_win_sb:
  "pending_sb_goal_timers (dashboard_win cfg w a sd s) = pending_sb_goal_timers s"
  by (simp add: dashboard_win_def run_in_def Let_def)






subsection \<open>A second schedule call for a pending event\<close>

text \<open>
  C3, as stated, fails. Event 55 is scheduled with a payload whose period is "1st"; the
  next poll schedules it again with a payload whose period is null. The stored draft is
  then the second payload as it is, period null, and not the overlay of the second on the
  first, which keeps "1st".
\<close>

theorem schedule_merges_counterexample:
  "p_period_ord example_payload = Some ''1st'' \<and>
   p_period_ord example_payload_later = None \<and>
   p_period_ord (merge_payload example_payload example_payload_later) = Some ''1st'' \<and>
   map_of (pending_event_payloads
       (schedule_event_coalesced (example_world 1) ''55'' Goal example_payload_later (13 / 10)
         (schedule_event_coalesced (example_world 0) ''55'' Goal example_payload (13 / 10)
            example_session)))
     ''55'' = Some example_payload_later \<and>
   example_payload_later \<noteq> merge_payload example_payload example_payload_later"
  by (simp add: merge_payload_def overlay_def engine_defs example_defs value_defs)

text \<open>
  C3, amended. For every schedule call whose event id already has a pending timer (and is
  not in the fired-event log), the new payload replaces the stored draft as a whole: the
  draft afterwards is the new payload, whatever the older one held. The pending timer, its
  due time and every other timer are left as they were: the deadline is neither reset nor
  extended.
\<close>

theorem schedule_pending_replaces:
  assumes "map_of (pending_event_timers s) event_id = Some h"
    and "event_id \<notin> fired_event_ids s"
  shows "map_of (pending_event_payloads (schedule_event_coalesced w event_id etype pl delay s))
           event_id = Some pl \<and>
         pending_event_timers (schedule_event_coalesced w event_id etype pl delay s)
           = pending_event_timers s \<and>
         timers (schedule_event_coalesced w event_id etype pl delay s) = timers s \<and>
         next_handle (schedule_event_coalesced w event_id etype pl delay s) = next_handle s"
  using assms by (simp add: schedule_event_coalesced_def Let_def update_conv')

theorem schedule_pending_replaces_witness:
  "map_of (pending_event_payloads
       (schedule_event_coalesced (example_world 1) ''55'' Goal example_payload_later (13 / 10)
         (schedule_event_coalesced (example_world 0) ''55'' Goal example_payload (13 / 10)
            example_session)))
     ''55'' = Some example_payload_later \<and>
   timers
       (schedule_event_coalesced (example_world 1) ''55'' Goal example_payload_later (13 / 10)
         (schedule_event_coalesced (example_world 0) ''55'' Goal example_payload (13 / 10)
            example_session)) 0
     = Some (13 / 10, CoalescedFire ''55'' Goal)"
proof -
  let ?s = "schedule_event_coalesced (example_world 0) ''55'' Goal example_payload (13 / 10)
              example_session"
  have h1: "map_of (pending_event_timers ?s) ''55'' = Some 0"
    by (simp add: engine_defs example_defs)
  have h2: "''55'' \<notin> fired_event_ids ?s"
    by (simp add: engine_defs example_defs)
  have t: "timers ?s 0 = Some (13 / 10, CoalescedFire ''55'' Goal)"
    by (simp add: engine_defs example_defs)
  show ?thesis
    using schedule_pending_replaces [OF h1 h2, of "example_world 1" Goal example_payload_later "13 / 10"] t
    by simp
qed

subsection \<open>Late binding at fire time\<close>



lemma cancel_if_running_eq: "cancel_if_running h s = s\<lparr>timers := (timers s)(h := None)\<rparr>"
  by (cases "timers s h")
     (auto simp: cancel_if_running_def timer_running_def cancel_timer_def fun_upd_idem)

lemma mark_fired_emitted: "emitted (mark_fired e s) = emitted s"
  by (simp add: mark_fired_def Let_def cancel_if_running_eq split: option.splits)

lemma mark_fired_session: "session (mark_fired e s) = session s"
  by (simp add: mark_fired_def Let_def cancel_if_running_eq split: option.splits)





subsection \<open>Session reset\<close>

lemma fold_cancel:
  "fold (\<lambda>(k, h). cancel_if_running h) xs s =
     s\<lparr>timers := (\<lambda>h. if h \<in> snd ` set xs then None else timers s h)\<rparr>"
proof (induction xs arbitrary: s)
  case Nil
  show ?case by simp
next
  case (Cons x xs)
  obtain k h where x: "x = (k, h)" by (cases x)
  have eq: "(\<lambda>h'. if h' \<in> snd ` set xs then None else ((timers s)(h := None)) h') =
        (\<lambda>h'. if h' \<in> snd ` set (x # xs) then None else timers s h')"
    by (auto simp: x fun_eq_iff)
  have "fold (\<lambda>(k, h). cancel_if_running h) (x # xs) s =
        fold (\<lambda>(k, h). cancel_if_running h) xs (cancel_if_running h s)"
    by (simp add: x)
  also have "\<dots> = (cancel_if_running h s)
      \<lparr>timers := (\<lambda>h'. if h' \<in> snd ` set xs then None else timers (cancel_if_running h s) h')\<rparr>"
    by (rule Cons.IH)
  also have "\<dots> = s\<lparr>timers := (\<lambda>h'. if h' \<in> snd ` set (x # xs) then None else timers s h')\<rparr>"
    unfolding cancel_if_running_eq using eq by (simp del: fun_upd_apply cong: if_cong)
  finally show ?case .
qed

lemma clear_pending_events_fields:
  "timers (clear_pending_events s) =
     (\<lambda>h. if h \<in> snd ` set (pending_event_timers s) \<union> snd ` set (pending_sb_goal_timers s)
          then None else timers s h)"
  "pending_event_timers (clear_pending_events s) = []"
  "pending_event_payloads (clear_pending_events s) = []"
  "fired_event_ids (clear_pending_events s) = {}"
  "nhl_api_goal_ids_processed (clear_pending_events s) = {}"
  "pending_sb_goal_timers (clear_pending_events s) = []"
  "sb_goal_suppress_until_ts (clear_pending_events s) = 0"
  "sb_last_fired_home_away (clear_pending_events s) = None"
  "session (clear_pending_events s) = Suc (session s)"
  "next_handle (clear_pending_events s) = next_handle s"
  "emitted (clear_pending_events s) = emitted s"
  "internal_prev_home_score (clear_pending_events s) = internal_prev_home_score s"
  "internal_prev_away_score (clear_pending_events s) = internal_prev_away_score s"
  "internal_prev_game_id_for_score_tracking (clear_pending_events s) =
     internal_prev_game_id_for_score_tracking s"
  "internal_win_fired_game_id (clear_pending_events s) = internal_win_fired_game_id s"
  "internal_start_fired_game_id (clear_pending_events s) = internal_start_fired_game_id s"
  "internal_prev_last_event_id (clear_pending_events s) = internal_prev_last_event_id s"
  by (auto simp: clear_pending_events_def Let_def fold_cancel fun_eq_iff)

subsection \<open>Frames of the callbacks\<close>

lemma reset_trackers_fields:
  "timers (reset_trackers s) = timers s"
  "pending_event_timers (reset_trackers s) = pending_event_timers s"
  "pending_event_payloads (reset_trackers s) = pending_event_payloads s"
  "fired_event_ids (reset_trackers s) = fired_event_ids s"
  "nhl_api_goal_ids_processed (reset_trackers s) = nhl_api_goal_ids_processed s"
  "pending_sb_goal_timers (reset_trackers s) = pending_sb_goal_timers s"
  "sb_goal_suppress_until_ts (reset_trackers s) = sb_goal_suppress_until_ts s"
  "sb_last_fired_home_away (reset_trackers s) = sb_last_fired_home_away s"
  "session (reset_trackers s) = session s"
  "next_handle (reset_trackers s) = next_handle s"
  "emitted (reset_trackers s) = emitted s"
  "internal_prev_home_score (reset_trackers s) = internal_prev_home_score s"
  "internal_prev_away_score (reset_trackers s) = internal_prev_away_score s"
  "internal_prev_game_id_for_score_tracking (reset_trackers s) =
     internal_prev_game_id_for_score_tracking s"
  "internal_win_fired_game_id (reset_trackers s) = None"
  "internal_start_fired_game_id (reset_trackers s) = None"
  "internal_prev_last_event_id (reset_trackers s) = None"
  by (simp_all add: reset_trackers_def)

lemma schedule_event_coalesced_fields:
  "fired_event_ids (schedule_event_coalesced w e ty pl d s) = fired_event_ids s"
  "nhl_api_goal_ids_processed (schedule_event_coalesced w e ty pl d s) = nhl_api_goal_ids_processed s"
  "pending_sb_goal_timers (schedule_event_coalesced w e ty pl d s) = pending_sb_goal_timers s"
  "sb_goal_suppress_until_ts (schedule_event_coalesced w e ty pl d s) = sb_goal_suppress_until_ts s"
  "sb_last_fired_home_away (schedule_event_coalesced w e ty pl d s) = sb_last_fired_home_away s"
  "session (schedule_event_coalesced w e ty pl d s) = session s"
  "emitted (schedule_event_coalesced w e ty pl d s) = emitted s"
  "internal_prev_home_score (schedule_event_coalesced w e ty pl d s) = internal_prev_home_score s"
  "internal_prev_away_score (schedule_event_coalesced w e ty pl d s) = internal_prev_away_score s"
  "internal_prev_game_id_for_score_tracking (schedule_event_coalesced w e ty pl d s) =
     internal_prev_game_id_for_score_tracking s"
  "internal_win_fired_game_id (schedule_event_coalesced w e ty pl d s) = internal_win_fired_game_id s"
  "internal_start_fired_game_id (schedule_event_coalesced w e ty pl d s) = internal_start_fired_game_id s"
  "internal_prev_last_event_id (schedule_event_coalesced w e ty pl d s) = internal_prev_last_event_id s"
  by (simp_all add: schedule_event_coalesced_def run_in_def Let_def)

lemma schedule_event_coalesced_timers:
  "h < next_handle s \<Longrightarrow> timers (schedule_event_coalesced w e ty pl d s) h = timers s h"
  "next_handle s \<le> next_handle (schedule_event_coalesced w e ty pl d s)"
  "fst ` set (pending_event_timers (schedule_event_coalesced w e ty pl d s)) \<subseteq>
     insert e (fst ` set (pending_event_timers s))"
  "fst ` set (pending_event_payloads (schedule_event_coalesced w e ty pl d s)) \<subseteq>
     insert e (fst ` set (pending_event_payloads s))"
  by (auto simp: schedule_event_coalesced_def run_in_def Let_def dom_update)

lemma cancel_scoreboard_fallback_empty:
  "pending_sb_goal_timers s = [] \<Longrightarrow> cancel_scoreboard_fallback sig s = s"
  by (simp add: cancel_scoreboard_fallback_def)


lemma cancel_scoreboard_fallback_fields:
  "fired_event_ids (cancel_scoreboard_fallback sig s) = fired_event_ids s"
  "nhl_api_goal_ids_processed (cancel_scoreboard_fallback sig s) = nhl_api_goal_ids_processed s"
  "pending_event_timers (cancel_scoreboard_fallback sig s) = pending_event_timers s"
  "pending_event_payloads (cancel_scoreboard_fallback sig s) = pending_event_payloads s"
  "pending_sb_goal_timers (cancel_scoreboard_fallback sig s) = AList.delete sig (pending_sb_goal_timers s)"
  "sb_goal_suppress_until_ts (cancel_scoreboard_fallback sig s) = sb_goal_suppress_until_ts s"
  "sb_last_fired_home_away (cancel_scoreboard_fallback sig s) = sb_last_fired_home_away s"
  "session (cancel_scoreboard_fallback sig s) = session s"
  "emitted (cancel_scoreboard_fallback sig s) = emitted s"
  "next_handle (cancel_scoreboard_fallback sig s) = next_handle s"
  "internal_prev_home_score (cancel_scoreboard_fallback sig s) = internal_prev_home_score s"
  "internal_prev_away_score (cancel_scoreboard_fallback sig s) = internal_prev_away_score s"
  "internal_prev_game_id_for_score_tracking (cancel_scoreboard_fallback sig s) =
     internal_prev_game_id_for_score_tracking s"
  "internal_win_fired_game_id (cancel_scoreboard_fallback sig s) = internal_win_fired_game_id s"
  "internal_start_fired_game_id (cancel_scoreboard_fallback sig s) = internal_start_fired_game_id s"
  "internal_prev_last_event_id (cancel_scoreboard_fallback sig s) = internal_prev_last_event_id s"
  by (simp_all add: cancel_scoreboard_fallback_def cancel_if_running_eq map_of_eq_None_iff
      split: option.splits)

lemma cancel_scoreboard_fallback_timers:
  "timers (cancel_scoreboard_fallback sig s) =
     (\<lambda>h. if map_of (pending_sb_goal_timers s) sig = Some h then None else timers s h)"
  by (auto simp: cancel_scoreboard_fallback_def cancel_if_running_eq fun_eq_iff
      split: option.splits)

text \<open>What the identified-event block leaves alone.\<close>

lemma dashboard_event_fields:
  "fired_event_ids (snd (dashboard_event cfg w nw sd s)) = fired_event_ids s"
  "nhl_api_goal_ids_processed (snd (dashboard_event cfg w nw sd s)) = nhl_api_goal_ids_processed s"
  "sb_goal_suppress_until_ts (snd (dashboard_event cfg w nw sd s)) = sb_goal_suppress_until_ts s"
  "sb_last_fired_home_away (snd (dashboard_event cfg w nw sd s)) = sb_last_fired_home_away s"
  "session (snd (dashboard_event cfg w nw sd s)) = session s"
  "emitted (snd (dashboard_event cfg w nw sd s)) = emitted s"
  "internal_prev_home_score (snd (dashboard_event cfg w nw sd s)) = internal_prev_home_score s"
  "internal_prev_away_score (snd (dashboard_event cfg w nw sd s)) = internal_prev_away_score s"
  "internal_prev_game_id_for_score_tracking (snd (dashboard_event cfg w nw sd s)) =
     internal_prev_game_id_for_score_tracking s"
  "internal_win_fired_game_id (snd (dashboard_event cfg w nw sd s)) = internal_win_fired_game_id s"
  "internal_start_fired_game_id (snd (dashboard_event cfg w nw sd s)) = internal_start_fired_game_id s"
  by (simp_all add: dashboard_event_def Let_def schedule_event_coalesced_fields
      cancel_scoreboard_fallback_fields split: option.splits)

lemma dashboard_event_pending:
  "fst ` set (pending_event_timers (snd (dashboard_event cfg w nw sd s))) \<subseteq>
     fst ` set (pending_event_timers s) \<union> set_option (d_last_event_id (ds_attrs nw))"
  "fst ` set (pending_event_payloads (snd (dashboard_event cfg w nw sd s))) \<subseteq>
     fst ` set (pending_event_payloads s) \<union> set_option (d_last_event_id (ds_attrs nw))"
  "set (pending_sb_goal_timers (snd (dashboard_event cfg w nw sd s))) \<subseteq>
     set (pending_sb_goal_timers s)"
  "next_handle s \<le> next_handle (snd (dashboard_event cfg w nw sd s))"
proof -
  note sch = schedule_event_coalesced_timers(3,4)
  show "fst ` set (pending_event_timers (snd (dashboard_event cfg w nw sd s))) \<subseteq>
     fst ` set (pending_event_timers s) \<union> set_option (d_last_event_id (ds_attrs nw))"
    using sch(1) [of w _ Goal _ _ "cancel_scoreboard_fallback (score_sig_of (ds_attrs nw)) s"]
      sch(1) [of w _ Penalty _ _ s]
    by (auto simp: dashboard_event_def Let_def cancel_scoreboard_fallback_fields
        split: option.splits)
  show "fst ` set (pending_event_payloads (snd (dashboard_event cfg w nw sd s))) \<subseteq>
     fst ` set (pending_event_payloads s) \<union> set_option (d_last_event_id (ds_attrs nw))"
    using sch(2) [of w _ Goal _ _ "cancel_scoreboard_fallback (score_sig_of (ds_attrs nw)) s"]
      sch(2) [of w _ Penalty _ _ s]
    by (auto simp: dashboard_event_def Let_def cancel_scoreboard_fallback_fields
        split: option.splits)
  show "set (pending_sb_goal_timers (snd (dashboard_event cfg w nw sd s))) \<subseteq>
     set (pending_sb_goal_timers s)"
    by (auto simp: dashboard_event_def Let_def cancel_scoreboard_fallback_fields
        schedule_event_coalesced_fields AList.delete_eq split: option.splits)
  show "next_handle s \<le> next_handle (snd (dashboard_event cfg w nw sd s))"
    using schedule_event_coalesced_timers(2)
      [of "cancel_scoreboard_fallback (score_sig_of (ds_attrs nw)) s" w]
      schedule_event_coalesced_timers(2) [of s w]
    by (auto simp: dashboard_event_def Let_def cancel_scoreboard_fallback_fields
        split: option.splits)
qed



lemma dashboard_win_fields:
  "fired_event_ids (dashboard_win cfg w a sd s) = fired_event_ids s"
  "nhl_api_goal_ids_processed (dashboard_win cfg w a sd s) = nhl_api_goal_ids_processed s"
  "pending_event_timers (dashboard_win cfg w a sd s) = pending_event_timers s"
  "pending_event_payloads (dashboard_win cfg w a sd s) = pending_event_payloads s"
  "sb_goal_suppress_until_ts (dashboard_win cfg w a sd s) = sb_goal_suppress_until_ts s"
  "sb_last_fired_home_away (dashboard_win cfg w a sd s) = sb_last_fired_home_away s"
  "session (dashboard_win cfg w a sd s) = session s"
  "emitted (dashboard_win cfg w a sd s) = emitted s"
  "internal_prev_home_score (dashboard_win cfg w a sd s) = internal_prev_home_score s"
  "internal_prev_away_score (dashboard_win cfg w a sd s) = internal_prev_away_score s"
  "internal_prev_game_id_for_score_tracking (dashboard_win cfg w a sd s) =
     internal_prev_game_id_for_score_tracking s"
  "internal_win_fired_game_id (dashboard_win cfg w a sd s) = internal_win_fired_game_id s"
  "next_handle s \<le> next_handle (dashboard_win cfg w a sd s)"
  by (simp_all add: dashboard_win_def run_in_def Let_def)

lemma dashboard_baseline_fields:
  "fired_event_ids (dashboard_baseline a sd s) = fired_event_ids s"
  "nhl_api_goal_ids_processed (dashboard_baseline a sd s) = nhl_api_goal_ids_processed s"
  "pending_event_timers (dashboard_baseline a sd s) = pending_event_timers s"
  "pending_event_payloads (dashboard_baseline a sd s) = pending_event_payloads s"
  "sb_goal_suppress_until_ts (dashboard_baseline a sd s) = sb_goal_suppress_until_ts s"
  "sb_last_fired_home_away (dashboard_baseline a sd s) = sb_last_fired_home_away s"
  "session (dashboard_baseline a sd s) = session s"
  "emitted (dashboard_baseline a sd s) = emitted s"
  "next_handle (dashboard_baseline a sd s) = next_handle s"
  "internal_prev_game_id_for_score_tracking (dashboard_baseline a sd s) =
     internal_prev_game_id_for_score_tracking s"
  "internal_win_fired_game_id (dashboard_baseline a sd s) = internal_win_fired_game_id s"
  by (simp_all add: dashboard_baseline_def)

lemma dashboard_no_score:
  assumes "\<not> my_scored sd" and "\<not> opp_scored sd"
  shows "dashboard_fallback cfg w a sd b s = s"
    and "dashboard_baseline a sd s = s"
  using assms by (simp_all add: dashboard_fallback_def dashboard_baseline_def)




lemma fire_puck_drop_fields:
  "timers (fire_puck_drop ctx s) = timers s"
  "fired_event_ids (fire_puck_drop ctx s) = fired_event_ids s"
  "nhl_api_goal_ids_processed (fire_puck_drop ctx s) = nhl_api_goal_ids_processed s"
  "pending_event_timers (fire_puck_drop ctx s) = pending_event_timers s"
  "pending_event_payloads (fire_puck_drop ctx s) = pending_event_payloads s"
  "pending_sb_goal_timers (fire_puck_drop ctx s) = pending_sb_goal_timers s"
  "sb_goal_suppress_until_ts (fire_puck_drop ctx s) = sb_goal_suppress_until_ts s"
  "sb_last_fired_home_away (fire_puck_drop ctx s) = sb_last_fired_home_away s"
  "session (fire_puck_drop ctx s) = session s"
  "next_handle (fire_puck_drop ctx s) = next_handle s"
  "internal_prev_home_score (fire_puck_drop ctx s) = internal_prev_home_score s"
  "internal_prev_away_score (fire_puck_drop ctx s) = internal_prev_away_score s"
  "internal_prev_game_id_for_score_tracking (fire_puck_drop ctx s) =
     internal_prev_game_id_for_score_tracking s"
  "internal_win_fired_game_id (fire_puck_drop ctx s) = internal_win_fired_game_id s"
  by (simp_all add: fire_puck_drop_def fire_event_def)

lemma process_nhl_api_win_fields:
  "fired_event_ids (process_nhl_api_win cfg w ctx s) = fired_event_ids s"
  "nhl_api_goal_ids_processed (process_nhl_api_win cfg w ctx s) = nhl_api_goal_ids_processed s"
  "pending_event_timers (process_nhl_api_win cfg w ctx s) = pending_event_timers s"
  "pending_event_payloads (process_nhl_api_win cfg w ctx s) = pending_event_payloads s"
  "pending_sb_goal_timers (process_nhl_api_win cfg w ctx s) = pending_sb_goal_timers s"
  "sb_goal_suppress_until_ts (process_nhl_api_win cfg w ctx s) = sb_goal_suppress_until_ts s"
  "sb_last_fired_home_away (process_nhl_api_win cfg w ctx s) = sb_last_fired_home_away s"
  "session (process_nhl_api_win cfg w ctx s) = session s"
  "emitted (process_nhl_api_win cfg w ctx s) = emitted s"
  "internal_prev_home_score (process_nhl_api_win cfg w ctx s) = internal_prev_home_score s"
  "internal_prev_away_score (process_nhl_api_win cfg w ctx s) = internal_prev_away_score s"
  "internal_prev_game_id_for_score_tracking (process_nhl_api_win cfg w ctx s) =
     internal_prev_game_id_for_score_tracking s"
  "internal_win_fired_game_id (process_nhl_api_win cfg w ctx s) = internal_win_fired_game_id s"
  "next_handle s \<le> next_handle (process_nhl_api_win cfg w ctx s)"
  by (simp_all add: process_nhl_api_win_def run_in_def Let_def)


lemma api_goal_fields:
  "fired_event_ids (api_goal cfg w attrs ctx s) = fired_event_ids s"
  "session (api_goal cfg w attrs ctx s) = session s"
  "emitted (api_goal cfg w attrs ctx s) = emitted s"
  "internal_prev_home_score (api_goal cfg w attrs ctx s) = internal_prev_home_score s"
  "internal_prev_away_score (api_goal cfg w attrs ctx s) = internal_prev_away_score s"
  "internal_prev_game_id_for_score_tracking (api_goal cfg w attrs ctx s) =
     internal_prev_game_id_for_score_tracking s"
  "internal_win_fired_game_id (api_goal cfg w attrs ctx s) = internal_win_fired_game_id s"
  by (simp_all add: api_goal_def Let_def schedule_event_coalesced_fields
      cancel_scoreboard_fallback_fields split: option.splits)





lemma build_nhl_api_context_scores:
  "build_nhl_api_context attrs sel = Some ctx \<Longrightarrow>
   c_home_score ctx = score_or_0 (a_home_score attrs) \<and>
   c_away_score ctx = score_or_0 (a_away_score attrs) \<and> c_game_id ctx = a_game_id attrs"
  by (auto simp: build_nhl_api_context_def Let_def score_or_0_def split: option.splits if_splits)






subsection \<open>Scores that go down\<close>

text \<open>
  C4, as stated, fails. The session of the first game has the baseline at 1-0, event 54 in
  the fired-event log and the timer of event 55 pending. The API feed, lagging, reports the
  same game at 0-0: the home baseline drops from 1 to 0, and nothing is reset (the ghost
  counter of resets, the fired-event log and the pending timer are as before). The dashboard
  sensor reporting 0-0 resets nothing either.
\<close>

theorem score_decrease_counterexample:
  "internal_prev_home_score example_busy_session = 1 \<and>
   internal_prev_home_score
     (nhl_api_sensor_change_callback example_config (example_world 3) None
        (Some example_stale_api) example_busy_session) = 0 \<and>
   session (nhl_api_sensor_change_callback example_config (example_world 3) None
        (Some example_stale_api) example_busy_session) = session example_busy_session \<and>
   fired_event_ids (nhl_api_sensor_change_callback example_config (example_world 3) None
        (Some example_stale_api) example_busy_session) = {''54''} \<and>
   timers (nhl_api_sensor_change_callback example_config (example_world 3) None
        (Some example_stale_api) example_busy_session) 0 = Some (13 / 10, CoalescedFire ''55'' Goal) \<and>
   session (dashboard_sensor_change_callback example_config (example_world 3) False
        (Some example_lower_state) example_busy_session) = session example_busy_session \<and>
   fired_event_ids (dashboard_sensor_change_callback example_config (example_world 3) False
        (Some example_lower_state) example_busy_session) = {''54''} \<and>
   timers (dashboard_sensor_change_callback example_config (example_world 3) False
        (Some example_lower_state) example_busy_session) 0 = Some (13 / 10, CoalescedFire ''55'' Goal)"
  by (simp add: engine_defs example_defs value_defs)

lemma dashboard_sides_not_scored:
  assumes "dashboard_sides w a s = Some sd"
    and "score_or_0 (d_home_score a) \<le> internal_prev_home_score s"
    and "score_or_0 (d_away_score a) \<le> internal_prev_away_score s"
  shows "\<not> my_scored sd \<and> \<not> opp_scored sd"
  using assms
  by (auto simp: dashboard_sides_def my_scored_def opp_scored_def Let_def split: if_splits)

lemma dashboard_no_increase:
  assumes st: "ds_state nw \<noteq> ''unavailable''"
    and g: "truthy (d_game_id (ds_attrs nw))"
    and same: "d_game_id (ds_attrs nw) = internal_prev_game_id_for_score_tracking s"
    and h: "score_or_0 (d_home_score (ds_attrs nw)) \<le> internal_prev_home_score s"
    and a: "score_or_0 (d_away_score (ds_attrs nw)) \<le> internal_prev_away_score s"
  shows "internal_prev_home_score (dashboard_sensor_change_callback cfg w is_test (Some nw) s)
           = internal_prev_home_score s \<and>
         internal_prev_away_score (dashboard_sensor_change_callback cfg w is_test (Some nw) s)
           = internal_prev_away_score s \<and>
         session (dashboard_sensor_change_callback cfg w is_test (Some nw) s) = session s \<and>
         fired_event_ids (dashboard_sensor_change_callback cfg w is_test (Some nw) s)
           = fired_event_ids s \<and>
         set (pending_sb_goal_timers (dashboard_sensor_change_callback cfg w is_test (Some nw) s))
           \<subseteq> set (pending_sb_goal_timers s) \<and>
         emitted (dashboard_sensor_change_callback cfg w is_test (Some nw) s) = emitted s"
proof -
  let ?a = "ds_attrs nw"
  have R: "dashboard_session is_test ?a s = s"
    using g same by (simp add: dashboard_session_def Let_def)
  show ?thesis
  proof (cases "dashboard_sides w ?a s")
    case None
    then have "dashboard_sensor_change_callback cfg w is_test (Some nw) s = s"
      using st by (simp add: dashboard_sensor_change_callback_def Let_def R)
    then show ?thesis by simp
  next
    case (Some sd)
    have ns: "\<not> my_scored sd \<and> \<not> opp_scored sd"
      by (rule dashboard_sides_not_scored [OF Some h a])
    have cb: "dashboard_sensor_change_callback cfg w is_test (Some nw) s =
        dashboard_win cfg w ?a sd (snd (dashboard_event cfg w nw sd s))"
      using st ns
      by (simp add: dashboard_sensor_change_callback_def Let_def R Some dashboard_no_score
          split: prod.splits)
    show ?thesis
      unfolding cb using dashboard_event_pending(3) [of cfg w nw sd s]
      by (simp add: dashboard_win_fields dashboard_win_sb dashboard_event_fields)
  qed
qed

lemma api_same_game:
  assumes st: "as_state nw = Some state" "state \<notin> {''unknown'', ''unavailable''}"
    and sel: "w_selected_team_abbrev w = Some sel" "sel \<noteq> []" "sel \<noteq> ''NONE''"
    and ctx: "build_nhl_api_context (as_attrs nw) sel = Some ctx"
    and same: "a_game_id (as_attrs nw) = internal_prev_game_id_for_score_tracking s"
  shows "internal_prev_home_score (nhl_api_sensor_change_callback cfg w old (Some nw) s)
           = score_or_0 (a_home_score (as_attrs nw)) \<and>
         internal_prev_away_score (nhl_api_sensor_change_callback cfg w old (Some nw) s)
           = score_or_0 (a_away_score (as_attrs nw)) \<and>
         session (nhl_api_sensor_change_callback cfg w old (Some nw) s) = session s \<and>
         fired_event_ids (nhl_api_sensor_change_callback cfg w old (Some nw) s) = fired_event_ids s"
proof -
  note cs = build_nhl_api_context_scores [OF ctx]
  have R: "api_session ctx s = s"
    using same cs by (simp add: api_session_def)
  define B where "B = (if state = ''LIVE'' \<and>
               (case old of None \<Rightarrow> None | Some ol \<Rightarrow> as_state ol) \<notin> {Some ''LIVE'', Some ''CRIT''}
            then fire_puck_drop ctx s else s)
              \<lparr>internal_prev_home_score := c_home_score ctx,
               internal_prev_away_score := c_away_score ctx\<rparr>"
  define G where "G = api_goal cfg w (as_attrs nw) ctx B"
  define W where "W = (if state \<in> {''FINAL'', ''OFF''} then process_nhl_api_win cfg w ctx G else G)"
  have cb: "nhl_api_sensor_change_callback cfg w old (Some nw) s = W"
    using st sel ctx by (simp add: nhl_api_sensor_change_callback_def Let_def R W_def G_def B_def)
  have Bf: "fired_event_ids B = fired_event_ids s" "session B = session s"
    "internal_prev_home_score B = c_home_score ctx"
    "internal_prev_away_score B = c_away_score ctx"
    by (simp_all add: B_def fire_puck_drop_fields)
  have Gf: "fired_event_ids G = fired_event_ids s" "session G = session s"
    "internal_prev_home_score G = c_home_score ctx"
    "internal_prev_away_score G = c_away_score ctx"
    by (simp_all add: G_def api_goal_fields Bf)
  show ?thesis
    unfolding cb using cs by (simp add: W_def process_nhl_api_win_fields Gf)
qed

text \<open>
  C4, amended. Within one game id, an observation whose scores are lower than the current
  baseline never resets the session. On the dashboard feed, an accepted observation in
  which neither score is above its baseline leaves the baseline where it was (no rollback),
  adds no scoreboard-fallback timer and dispatches nothing (no negative delta), and the
  fired-event log stays. On the API feed, an accepted observation sets the baseline to the
  scores it carries, lower or not, and the fired-event log stays.
\<close>

theorem score_decrease_no_reset:
  "(ds_state dnw \<noteq> ''unavailable'' \<and> truthy (d_game_id (ds_attrs dnw)) \<and>
    d_game_id (ds_attrs dnw) = internal_prev_game_id_for_score_tracking s \<and>
    score_or_0 (d_home_score (ds_attrs dnw)) \<le> internal_prev_home_score s \<and>
    score_or_0 (d_away_score (ds_attrs dnw)) \<le> internal_prev_away_score s \<longrightarrow>
      internal_prev_home_score (dashboard_sensor_change_callback cfg w is_test (Some dnw) s)
        = internal_prev_home_score s \<and>
      internal_prev_away_score (dashboard_sensor_change_callback cfg w is_test (Some dnw) s)
        = internal_prev_away_score s \<and>
      session (dashboard_sensor_change_callback cfg w is_test (Some dnw) s) = session s \<and>
      fired_event_ids (dashboard_sensor_change_callback cfg w is_test (Some dnw) s)
        = fired_event_ids s \<and>
      set (pending_sb_goal_timers (dashboard_sensor_change_callback cfg w is_test (Some dnw) s))
        \<subseteq> set (pending_sb_goal_timers s) \<and>
      emitted (dashboard_sensor_change_callback cfg w is_test (Some dnw) s) = emitted s) \<and>
   (as_state anw = Some state \<and> state \<notin> {''unknown'', ''unavailable''} \<and>
    w_selected_team_abbrev w = Some sel \<and> sel \<noteq> [] \<and> sel \<noteq> ''NONE'' \<and>
    build_nhl_api_context (as_attrs anw) sel = Some ctx \<and>
    a_game_id (as_attrs anw) = internal_prev_game_id_for_score_tracking s \<longrightarrow>
      internal_prev_home_score (nhl_api_sensor_change_callback cfg w old (Some anw) s)
        = score_or_0 (a_home_score (as_attrs anw)) \<and>
      internal_prev_away_score (nhl_api_sensor_change_callback cfg w old (Some anw) s)
        = score_or_0 (a_away_score (as_attrs anw)) \<and>
      session (nhl_api_sensor_change_callback cfg w old (Some anw) s) = session s \<and>
      fired_event_ids (nhl_api_sensor_change_callback cfg w old (Some anw) s) = fired_event_ids s)"
  using dashboard_no_increase [of dnw s cfg w is_test]
    api_same_game [of anw state w sel ctx s cfg old]
  by blast

theorem score_decrease_no_reset_witness:
  "internal_prev_home_score (dashboard_sensor_change_callback example_config (example_world 3) False
        (Some example_lower_state) example_busy_session) = 1 \<and>
   session (dashboard_sensor_change_callback example_config (example_world 3) False
        (Some example_lower_state) example_busy_session) = 1 \<and>
   emitted (dashboard_sensor_change_callback example_config (example_world 3) False
        (Some example_lower_state) example_busy_session) = [] \<and>
   internal_prev_home_score (nhl_api_sensor_change_callback example_config (example_world 3) None
        (Some example_stale_api) example_busy_session) = 0 \<and>
   session (nhl_api_sensor_change_callback example_config (example_world 3) None
        (Some example_stale_api) example_busy_session) = 1"
proof -
  have d: "ds_state example_lower_state \<noteq> ''unavailable'' \<and>
      truthy (d_game_id (ds_attrs example_lower_state)) \<and>
      d_game_id (ds_attrs example_lower_state) =
        internal_prev_game_id_for_score_tracking example_busy_session \<and>
      score_or_0 (d_home_score (ds_attrs example_lower_state)) \<le>
        internal_prev_home_score example_busy_session \<and>
      score_or_0 (d_away_score (ds_attrs example_lower_state)) \<le>
        internal_prev_away_score example_busy_session"
    by (simp add: example_defs value_defs)
  have a: "as_state example_stale_api = Some ''LIVE'' \<and>
      ''LIVE'' \<notin> {''unknown'', ''unavailable''} \<and>
      w_selected_team_abbrev (example_world 3) = Some ''TOR'' \<and> ''TOR'' \<noteq> [] \<and> ''TOR'' \<noteq> ''NONE'' \<and>
      build_nhl_api_context (as_attrs example_stale_api) ''TOR'' =
        Some (example_api_context\<lparr>c_home_score := 0, c_away_score := 0\<rparr>) \<and>
      a_game_id (as_attrs example_stale_api) =
        internal_prev_game_id_for_score_tracking example_busy_session"
    by (simp add: example_defs value_defs build_nhl_api_context_def)
  have v: "internal_prev_home_score example_busy_session = 1"
    "session example_busy_session = 1" "emitted example_busy_session = []"
    "score_or_0 (a_home_score (as_attrs example_stale_api)) = 0"
    by (simp_all add: example_defs value_defs)
  note t = score_decrease_no_reset [of example_lower_state example_busy_session example_config
      "example_world 3" False example_stale_api "''LIVE''" "''TOR''"
      "example_api_context\<lparr>c_home_score := 0, c_away_score := 0\<rparr>" None]
  note p1 = t [THEN conjunct1, THEN mp, OF d]
  note p2 = t [THEN conjunct2, THEN mp, OF a]
  show ?thesis
    using p1 p2 unfolding v by simp
qed

subsection \<open>The win event\<close>

text \<open>
  C5 fails on the code. The guard \<^verbatim>\<open>internal_win_fired_game_id\<close> is set by the delayed
  closure \<^verbatim>\<open>_fire_win\<close>, not when the closure is scheduled. With a broadcast delay of 30 s,
  the terminal state polled at second 0 and again at second 10 starts two timers (the guard
  is still unset at the second poll), and both fire: the same game's win is dispatched
  twice.
\<close>

theorem win_fires_twice:
  "internal_win_fired_game_id (run example_config (take 2 example_final_trace) example_final_session)
     = None \<and>
   internal_win_fired_game_id (run example_config (take 3 example_final_trace) example_final_session)
     = Some ''2023020001'' \<and>
   emitted (run example_config example_final_trace example_final_session) =
     [(1, TeamWin example_win), (1, TeamWin example_win)]"
  by (simp add: engine_defs example_defs value_defs)

subsection \<open>One dispatch per score signature\<close>












subsection \<open>At most one dispatch per event id\<close>

text \<open>
  Every callback keeps the invariant of the coalescing scheduler: first the operations of
  the scheduler, then the callbacks built from them, then the event loop.
\<close>

lemma dispatches_append:
  "dispatches k e (out @ [(k', ev)]) =
     dispatches k e out + (if k' = k \<and> coalesced_id ev = Some e then 1 else 0)"
  by (simp add: dispatches_def)

lemma dispatches_Nil: "dispatches k e [] = 0"
  by (simp add: dispatches_def)

lemma inv_initialize: "coalescing_inv initialize"
  by (simp add: coalescing_inv_def timers_ok_def handles_ok_def log_ok_def initialize_def
      dispatches_Nil issued_def)

lemma timers_okD:
  "timers_ok s \<Longrightarrow> timers s h = Some (d, CoalescedFire e ty) \<Longrightarrow>
   map_of (pending_event_timers s) e = Some h \<and> e \<notin> fired_event_ids s"
  unfolding timers_ok_def by blast

text \<open>Timers may go, the dicts may shrink, handles may be issued, the log may grow.\<close>

lemma timers_ok_shrink:
  assumes "timers_ok s"
    and "\<And>h. timers s' h = None \<or> timers s' h = timers s h"
    and "pending_event_timers s' = pending_event_timers s"
    and "fired_event_ids s' = fired_event_ids s"
  shows "timers_ok s'"
  unfolding timers_ok_def
proof (intro allI impI)
  fix h d e ty
  assume a: "timers s' h = Some (d, CoalescedFire e ty)"
  then have "timers s h = Some (d, CoalescedFire e ty)"
    using assms(2) [of h] by auto
  then show "map_of (pending_event_timers s') e = Some h \<and> e \<notin> fired_event_ids s'"
    using timers_okD [OF assms(1)] by (simp add: assms(3,4))
qed

lemma handles_ok_shrink:
  assumes "handles_ok s"
    and "\<And>h. timers s' h = None \<or> timers s' h = timers s h"
    and "next_handle s \<le> next_handle s'"
  shows "handles_ok s'"
  unfolding handles_ok_def
proof (intro allI impI)
  fix h
  assume "next_handle s' \<le> h"
  then have "timers s h = None"
    using assms(1,3) by (simp add: handles_ok_def)
  then show "timers s' h = None"
    using assms(2) [of h] by auto
qed

lemma issued_shrink:
  assumes "issued s"
    and "snd ` set (pending_event_timers s') \<subseteq> snd ` set (pending_event_timers s)"
    and "snd ` set (pending_sb_goal_timers s') \<subseteq> snd ` set (pending_sb_goal_timers s)"
    and "next_handle s \<le> next_handle s'"
  shows "issued s'"
  unfolding issued_def
proof
  fix h
  assume "h \<in> snd ` set (pending_event_timers s') \<union> snd ` set (pending_sb_goal_timers s')"
  then have "h \<in> snd ` set (pending_event_timers s) \<union> snd ` set (pending_sb_goal_timers s)"
    using assms(2,3) by blast
  then have "h < next_handle s"
    using assms(1) by (simp add: issued_def)
  then show "h < next_handle s'"
    using assms(4) by simp
qed

lemma log_ok_same:
  assumes "log_ok s"
    and "fired_event_ids s \<subseteq> fired_event_ids s'"
    and "emitted s' = emitted s"
    and "session s' = session s"
  shows "log_ok s'"
proof -
  have "dispatches (session s) e (emitted s) = 0" if "e \<notin> fired_event_ids s'" for e
    using assms(1,2) that by (auto simp: log_ok_def)
  then show ?thesis
    using assms(1) by (simp add: log_ok_def assms(3,4))
qed


lemma snd_set_update: "snd ` set (AList.update k v al) \<subseteq> insert v (snd ` set al)"
  by (induction al) auto

lemma snd_set_delete: "snd ` set (AList.delete k al) \<subseteq> snd ` set al"
  by (auto simp: AList.delete_eq)

lemma inv_frame:
  assumes "coalescing_inv s"
    and "timers s' = timers s" "next_handle s' = next_handle s"
    and "pending_event_timers s' = pending_event_timers s"
    and "pending_sb_goal_timers s' = pending_sb_goal_timers s"
    and "fired_event_ids s' = fired_event_ids s"
    and "emitted s' = emitted s" "session s' = session s"
  shows "coalescing_inv s'"
  using assms
  by (simp add: coalescing_inv_def timers_ok_def handles_ok_def log_ok_def issued_def)

lemma inv_clear: "coalescing_inv s \<Longrightarrow> coalescing_inv (clear_pending_events s)"
proof -
  assume i: "coalescing_inv s"
  let ?c = "clear_pending_events s"
  have no: "timers ?c h \<noteq> Some (d, CoalescedFire e ty)" for h d e ty
  proof
    assume a: "timers ?c h = Some (d, CoalescedFire e ty)"
    then have t: "timers s h = Some (d, CoalescedFire e ty)"
      and n: "h \<notin> snd ` set (pending_event_timers s)"
      by (auto simp: clear_pending_events_fields split: if_splits)
    from i t have "map_of (pending_event_timers s) e = Some h"
      by (simp add: coalescing_inv_def timers_okD)
    then have "(e, h) \<in> set (pending_event_timers s)"
      by (rule map_of_SomeD)
    with n show False by force
  qed
  have 1: "timers_ok ?c"
    unfolding timers_ok_def using no by blast
  have 2: "handles_ok ?c"
    using i by (simp add: coalescing_inv_def handles_ok_def clear_pending_events_fields)
  have 3: "log_ok ?c"
    using i by (simp add: coalescing_inv_def log_ok_def clear_pending_events_fields)
  have 4: "issued ?c"
    by (simp add: issued_def clear_pending_events_fields)
  from 1 2 3 4 show ?thesis
    by (simp add: coalescing_inv_def)
qed

text \<open>A timer for a scoreboard goal or a win.\<close>

lemma inv_run_in:
  assumes "coalescing_inv s" and "\<And>e ty. cb \<noteq> CoalescedFire e ty"
  shows "coalescing_inv (snd (run_in w cb d s))"
    and "coalescing_inv
           ((snd (run_in w cb d s))
              \<lparr>pending_sb_goal_timers :=
                 AList.update sig (next_handle s) (pending_sb_goal_timers (snd (run_in w cb d s)))\<rparr>)"
proof -
  let ?r = "snd (run_in w cb d s)"
  let ?u = "?r\<lparr>pending_sb_goal_timers :=
                 AList.update sig (next_handle s) (pending_sb_goal_timers ?r)\<rparr>"
  have f: "timers ?r = (timers s)(next_handle s \<mapsto> (w_now w + d, cb))"
    "next_handle ?r = Suc (next_handle s)" "pending_event_timers ?r = pending_event_timers s"
    "pending_sb_goal_timers ?r = pending_sb_goal_timers s"
    "fired_event_ids ?r = fired_event_ids s" "emitted ?r = emitted s" "session ?r = session s"
    by (simp_all add: run_in_def)
  have 1: "timers_ok ?r"
    using assms by (auto simp: timers_ok_def coalescing_inv_def f)
  have 2: "handles_ok ?r"
    using assms(1) by (simp add: handles_ok_def coalescing_inv_def f)
  have 3: "log_ok ?r"
    using assms(1) by (simp add: log_ok_def coalescing_inv_def f)
  have 4: "issued ?r"
    using assms(1) by (rule_tac issued_shrink [of s]) (simp_all add: coalescing_inv_def f)
  show "coalescing_inv ?r"
    using 1 2 3 4 by (simp add: coalescing_inv_def)
  have 5: "issued ?u"
    unfolding issued_def
  proof
    fix h
    assume "h \<in> snd ` set (pending_event_timers ?u) \<union> snd ` set (pending_sb_goal_timers ?u)"
    then have "h \<in> snd ` set (pending_event_timers s) \<union> snd ` set (pending_sb_goal_timers s) \<or>
        h = next_handle s"
      using snd_set_update [of sig "next_handle s" "pending_sb_goal_timers s"] by (auto simp: f)
    then show "h < next_handle ?u"
    proof
      assume "h \<in> snd ` set (pending_event_timers s) \<union> snd ` set (pending_sb_goal_timers s)"
      then have "h < next_handle s"
        using assms(1) by (simp add: coalescing_inv_def issued_def)
      then show ?thesis by (simp add: f)
    next
      assume "h = next_handle s"
      then show ?thesis by (simp add: f)
    qed
  qed
  show "coalescing_inv ?u"
    using 1 2 3 5 by (simp add: coalescing_inv_def timers_ok_def handles_ok_def log_ok_def)
qed


lemma inv_cancel_scoreboard_fallback:
  assumes "coalescing_inv s"
  shows "coalescing_inv (cancel_scoreboard_fallback sig s)"
proof -
  let ?c = "cancel_scoreboard_fallback sig s"
  have t: "timers ?c h = None \<or> timers ?c h = timers s h" for h
    by (simp add: cancel_scoreboard_fallback_timers)
  have sb: "snd ` set (pending_sb_goal_timers ?c) \<subseteq> snd ` set (pending_sb_goal_timers s)"
    by (simp add: cancel_scoreboard_fallback_fields snd_set_delete)
  have "timers_ok ?c"
    using assms t by (rule_tac timers_ok_shrink [of s])
      (simp_all add: coalescing_inv_def cancel_scoreboard_fallback_fields)
  moreover have "handles_ok ?c"
    using assms t by (rule_tac handles_ok_shrink [of s])
      (simp_all add: coalescing_inv_def cancel_scoreboard_fallback_fields)
  moreover have "log_ok ?c"
    using assms by (rule_tac log_ok_same [of s])
      (simp_all add: coalescing_inv_def cancel_scoreboard_fallback_fields)
  moreover have "issued ?c"
    using assms sb by (rule_tac issued_shrink [of s])
      (simp_all add: coalescing_inv_def cancel_scoreboard_fallback_fields)
  ultimately show ?thesis
    by (simp add: coalescing_inv_def)
qed

lemma inv_schedule_event_coalesced:
  assumes "coalescing_inv s"
  shows "coalescing_inv (schedule_event_coalesced w e ty pl d s)"
proof -
  let ?r = "schedule_event_coalesced w e ty pl d s"
  consider (fired) "e \<in> fired_event_ids s"
    | (pending) h where "e \<notin> fired_event_ids s" "map_of (pending_event_timers s) e = Some h"
    | (new) "e \<notin> fired_event_ids s" "map_of (pending_event_timers s) e = None"
    by (cases "map_of (pending_event_timers s) e") auto
  then show ?thesis
  proof cases
    case fired
    then show ?thesis
      using assms by (simp add: schedule_event_coalesced_def)
  next
    case pending
    then have "?r = s\<lparr>pending_event_payloads := AList.update e pl (pending_event_payloads s)\<rparr>"
      by (simp add: schedule_event_coalesced_def Let_def)
    then show ?thesis
      using assms by (simp add: inv_frame [of s])
  next
    case new
    let ?n = "next_handle s"
    have f: "timers ?r = (timers s)(?n \<mapsto> (w_now w + max (1 / 10) d, CoalescedFire e ty))"
      "next_handle ?r = Suc ?n"
      "pending_event_timers ?r = AList.update e ?n (pending_event_timers s)"
      "pending_sb_goal_timers ?r = pending_sb_goal_timers s"
      "fired_event_ids ?r = fired_event_ids s" "emitted ?r = emitted s" "session ?r = session s"
      using new by (simp_all add: schedule_event_coalesced_def Let_def run_in_def)
    have 1: "timers_ok ?r"
      unfolding timers_ok_def
    proof (intro allI impI)
      fix h d' e' ty'
      assume a: "timers ?r h = Some (d', CoalescedFire e' ty')"
      show "map_of (pending_event_timers ?r) e' = Some h \<and> e' \<notin> fired_event_ids ?r"
      proof (cases "h = ?n")
        case True
        with a have "e' = e" by (simp add: f)
        with True new show ?thesis by (simp add: f update_conv')
      next
        case False
        with a have "timers s h = Some (d', CoalescedFire e' ty')" by (simp add: f)
        then have p: "map_of (pending_event_timers s) e' = Some h \<and> e' \<notin> fired_event_ids s"
          using assms by (simp add: coalescing_inv_def timers_okD)
        with new have "e' \<noteq> e" by auto
        with p show ?thesis by (simp add: f update_conv')
      qed
    qed
    have 2: "handles_ok ?r"
      using assms by (simp add: handles_ok_def coalescing_inv_def f)
    have 3: "log_ok ?r"
      using assms by (simp add: log_ok_def coalescing_inv_def f)
    have 4: "issued ?r"
      unfolding issued_def
    proof
      fix h
      assume "h \<in> snd ` set (pending_event_timers ?r) \<union> snd ` set (pending_sb_goal_timers ?r)"
      then have "h \<in> snd ` set (pending_event_timers s) \<union> snd ` set (pending_sb_goal_timers s) \<or>
          h = ?n"
        using snd_set_update [of e ?n "pending_event_timers s"] by (auto simp: f)
      then show "h < next_handle ?r"
      proof
        assume "h \<in> snd ` set (pending_event_timers s) \<union> snd ` set (pending_sb_goal_timers s)"
        then have "h < next_handle s"
          using assms by (simp add: coalescing_inv_def issued_def)
        then show ?thesis by (simp add: f)
      next
        assume "h = ?n"
        then show ?thesis by (simp add: f)
      qed
    qed
    from 1 2 3 4 show ?thesis
      by (simp add: coalescing_inv_def)
  qed
qed

lemma inv_fire_event:
  assumes "coalescing_inv s" and "coalesced_id ev = None"
  shows "coalescing_inv (fire_event ev s)"
  using assms
  by (simp add: coalescing_inv_def timers_ok_def handles_ok_def log_ok_def issued_def
      fire_event_def dispatches_append)


lemma mark_fired_fields:
  "fired_event_ids (mark_fired e s) = insert e (fired_event_ids s)"
  "pending_event_timers (mark_fired e s) = AList.delete e (pending_event_timers s)"
  "pending_sb_goal_timers (mark_fired e s) = pending_sb_goal_timers s"
  "next_handle (mark_fired e s) = next_handle s"
  "timers (mark_fired e s) =
     (\<lambda>h. if map_of (pending_event_timers s) e = Some h then None else timers s h)"
  by (auto simp: mark_fired_def Let_def cancel_if_running_eq map_of_eq_None_iff fun_eq_iff
      split: option.splits)

text \<open>
  The two ways the fire callback ends: at the raise, with the stored payload changed at
  most, or through \<open>mark_fired\<close>, after one dispatch of its event id at most.
\<close>

lemma coalesced_fire_callback_cases:
  "(\<exists>pls. coalesced_fire_callback w e ty s = s\<lparr>pending_event_payloads := pls\<rparr>) \<or>
   (\<exists>s2. coalesced_fire_callback w e ty s = mark_fired e s2 \<and>
      timers s2 = timers s \<and> next_handle s2 = next_handle s \<and>
      pending_event_timers s2 = pending_event_timers s \<and>
      pending_sb_goal_timers s2 = pending_sb_goal_timers s \<and>
      fired_event_ids s2 = fired_event_ids s \<and> session s2 = session s \<and>
      (emitted s2 = emitted s \<or>
       (\<exists>ev. emitted s2 = emitted s @ [(session s, ev)] \<and> coalesced_id ev = Some e)))"
proof -
  define pl where "pl = late_binding (snapshot_attrs w) e
      (case map_of (pending_event_payloads s) e of None \<Rightarrow> empty_payload | Some p \<Rightarrow> p)"
  define s1 where "s1 = (if map_of (pending_event_payloads s) e = None then s
      else s\<lparr>pending_event_payloads := AList.update e pl (pending_event_payloads s)\<rparr>)"
  define disp where "disp = (case ty of Goal \<Rightarrow> coalesced_fire_goal w e pl s1
      | Penalty \<Rightarrow> Some (coalesced_fire_penalty e pl s1))"
  have cb: "coalesced_fire_callback w e ty s =
      (case disp of None \<Rightarrow> s1 | Some s2 \<Rightarrow> mark_fired e s2)"
    unfolding pl_def s1_def disp_def coalesced_fire_callback_def Let_def by (rule refl)
  have s1f: "timers s1 = timers s" "next_handle s1 = next_handle s"
    "pending_event_timers s1 = pending_event_timers s"
    "pending_sb_goal_timers s1 = pending_sb_goal_timers s"
    "fired_event_ids s1 = fired_event_ids s" "session s1 = session s" "emitted s1 = emitted s"
    by (simp_all add: s1_def)
  have s1p: "\<exists>pls. s1 = s\<lparr>pending_event_payloads := pls\<rparr>"
  proof (cases "map_of (pending_event_payloads s) e = None")
    case True
    then have "s1 = s\<lparr>pending_event_payloads := pending_event_payloads s\<rparr>"
      by (simp add: s1_def)
    then show ?thesis by blast
  next
    case False
    then show ?thesis by (auto simp: s1_def)
  qed
  show ?thesis
  proof (cases disp)
    case None
    then show ?thesis
      using s1p by (simp add: cb)
  next
    case (Some s2)
    have "s2 = s1 \<or> (\<exists>ev. s2 = fire_event ev s1 \<and> coalesced_id ev = Some e)"
      using Some
      by (cases ty)
         (auto simp: disp_def coalesced_fire_goal_def coalesced_fire_penalty_def split: if_splits)
    then have "timers s2 = timers s \<and> next_handle s2 = next_handle s \<and>
      pending_event_timers s2 = pending_event_timers s \<and>
      pending_sb_goal_timers s2 = pending_sb_goal_timers s \<and>
      fired_event_ids s2 = fired_event_ids s \<and> session s2 = session s \<and>
      (emitted s2 = emitted s \<or>
       (\<exists>ev. emitted s2 = emitted s @ [(session s, ev)] \<and> coalesced_id ev = Some e))"
      by (auto simp: fire_event_def s1f)
    then show ?thesis
      using Some by (simp add: cb) blast
  qed
qed


lemma inv_drop_timer:
  assumes "coalescing_inv s"
  shows "coalescing_inv (s\<lparr>timers := (timers s)(h := None)\<rparr>)"
proof -
  let ?s = "s\<lparr>timers := (timers s)(h := None)\<rparr>"
  have t: "timers ?s h' = None \<or> timers ?s h' = timers s h'" for h'
    by simp
  have "timers_ok ?s"
    using assms t by (rule_tac timers_ok_shrink [of s]) (simp_all add: coalescing_inv_def)
  moreover have "handles_ok ?s"
    using assms t by (rule_tac handles_ok_shrink [of s]) (simp_all add: coalescing_inv_def)
  moreover have "log_ok ?s"
    using assms by (rule_tac log_ok_same [of s]) (simp_all add: coalescing_inv_def)
  moreover have "issued ?s"
    using assms by (rule_tac issued_shrink [of s]) (simp_all add: coalescing_inv_def)
  ultimately show ?thesis
    by (simp add: coalescing_inv_def)
qed

lemma inv_coalesced_fire:
  assumes i: "coalescing_inv s"
    and t: "timers s h = Some (due, CoalescedFire e ty)"
  shows "coalescing_inv (coalesced_fire_callback w e ty (s\<lparr>timers := (timers s)(h := None)\<rparr>))"
proof -
  let ?s0 = "s\<lparr>timers := (timers s)(h := None)\<rparr>"
  let ?r = "coalesced_fire_callback w e ty ?s0"
  have i0: "coalescing_inv ?s0"
    by (rule inv_drop_timer [OF i])
  have pe: "map_of (pending_event_timers s) e = Some h" and nf: "e \<notin> fired_event_ids s"
    using i t by (simp_all add: coalescing_inv_def timers_okD)
  from coalesced_fire_callback_cases [of w e ty ?s0]
  show ?thesis
  proof
    assume "\<exists>pls. ?r = ?s0\<lparr>pending_event_payloads := pls\<rparr>"
    then obtain pls where "?r = ?s0\<lparr>pending_event_payloads := pls\<rparr>" ..
    then show ?thesis
      using i0 by (simp add: inv_frame [of ?s0])
  next
    assume "\<exists>s2. ?r = mark_fired e s2 \<and>
      timers s2 = timers ?s0 \<and> next_handle s2 = next_handle ?s0 \<and>
      pending_event_timers s2 = pending_event_timers ?s0 \<and>
      pending_sb_goal_timers s2 = pending_sb_goal_timers ?s0 \<and>
      fired_event_ids s2 = fired_event_ids ?s0 \<and> session s2 = session ?s0 \<and>
      (emitted s2 = emitted ?s0 \<or>
       (\<exists>ev. emitted s2 = emitted ?s0 @ [(session ?s0, ev)] \<and> coalesced_id ev = Some e))"
    then obtain s2 where r: "?r = mark_fired e s2"
      and f2: "timers s2 = (timers s)(h := None)" "next_handle s2 = next_handle s"
        "pending_event_timers s2 = pending_event_timers s"
        "pending_sb_goal_timers s2 = pending_sb_goal_timers s"
        "fired_event_ids s2 = fired_event_ids s" "session s2 = session s"
      and em: "emitted s2 = emitted s \<or>
       (\<exists>ev. emitted s2 = emitted s @ [(session s, ev)] \<and> coalesced_id ev = Some e)"
      by auto
    have rt: "timers ?r = (timers s)(h := None)"
      by (auto simp: r mark_fired_fields f2 pe fun_eq_iff)
    have rf: "fired_event_ids ?r = insert e (fired_event_ids s)"
      "pending_event_timers ?r = AList.delete e (pending_event_timers s)"
      "pending_sb_goal_timers ?r = pending_sb_goal_timers s"
      "next_handle ?r = next_handle s" "session ?r = session s" "emitted ?r = emitted s2"
      by (simp_all add: r mark_fired_fields mark_fired_session mark_fired_emitted f2)
    have 1: "timers_ok ?r"
      unfolding timers_ok_def
    proof (intro allI impI)
      fix h' d' e' ty'
      assume a: "timers ?r h' = Some (d', CoalescedFire e' ty')"
      then have ne: "h' \<noteq> h" and ts: "timers s h' = Some (d', CoalescedFire e' ty')"
        by (auto simp: rt split: if_splits)
      then have p: "map_of (pending_event_timers s) e' = Some h'" "e' \<notin> fired_event_ids s"
        using i by (simp_all add: coalescing_inv_def timers_okD)
      with pe ne have "e' \<noteq> e" by auto
      with p show "map_of (pending_event_timers ?r) e' = Some h' \<and> e' \<notin> fired_event_ids ?r"
        by (simp add: rf delete_conv')
    qed
    have 2: "handles_ok ?r"
      using i by (simp add: handles_ok_def coalescing_inv_def rt rf)
    have 4: "issued ?r"
      using i snd_set_delete [of e "pending_event_timers s"]
      by (rule_tac issued_shrink [of s]) (simp_all add: coalescing_inv_def rf)
    have l: "log_ok s"
      using i by (simp add: coalescing_inv_def)
    have z: "dispatches (session s) e (emitted s) = 0"
      using l nf by (simp add: log_ok_def)
    have 3: "log_ok ?r"
      using em
    proof
      assume "emitted s2 = emitted s"
      then show ?thesis
        using l by (rule_tac log_ok_same [of s]) (auto simp: rf)
    next
      assume "\<exists>ev. emitted s2 = emitted s @ [(session s, ev)] \<and> coalesced_id ev = Some e"
      then obtain ev where ev: "emitted s2 = emitted s @ [(session s, ev)]"
        "coalesced_id ev = Some e" by blast
      have d: "dispatches k e' (emitted s2) =
          dispatches k e' (emitted s) + (if session s = k \<and> e = e' then 1 else 0)" for k e'
        by (simp add: ev dispatches_append)
      have a: "dispatches k e' (emitted ?r) \<le> 1" for k e'
        using l z by (auto simp: rf d log_ok_def)
      have b: "dispatches (session ?r) e' (emitted ?r) = 0" if "e' \<notin> fired_event_ids ?r" for e'
        using l that by (auto simp: rf d log_ok_def)
      have c: "dispatches k e' (emitted ?r) = 0" if "session ?r < k" for k e'
        using l that by (auto simp: rf d log_ok_def)
      show ?thesis
        unfolding log_ok_def using a b c by blast
    qed
    from 1 2 3 4 show ?thesis
      by (simp add: coalescing_inv_def)
  qed
qed

lemma inv_scoreboard_goal_fire_wrapper:
  assumes "coalescing_inv s"
  shows "coalescing_inv (scoreboard_goal_fire_wrapper cfg w kw s)"
proof -
  let ?e = "fire_event (ScoreboardGoal (k_kind kw = ''my'') (k_score_sig kw) (k_my_score kw)
      (k_opp_score kw)) s"
  let ?r = "scoreboard_goal_fire_wrapper cfg w kw s"
  have ie: "coalescing_inv ?e"
    by (rule inv_fire_event [OF assms]) simp
  have f: "timers ?r = timers ?e" "next_handle ?r = next_handle ?e"
    "pending_event_timers ?r = pending_event_timers ?e"
    "pending_sb_goal_timers ?r = AList.delete (k_score_sig kw) (pending_sb_goal_timers ?e)"
    "fired_event_ids ?r = fired_event_ids ?e" "emitted ?r = emitted ?e" "session ?r = session ?e"
    by (simp_all add: scoreboard_goal_fire_wrapper_def Let_def)
  have "timers_ok ?r"
    using ie by (rule_tac timers_ok_shrink [of ?e]) (simp_all add: coalescing_inv_def f)
  moreover have "handles_ok ?r"
    using ie by (rule_tac handles_ok_shrink [of ?e]) (simp_all add: coalescing_inv_def f)
  moreover have "log_ok ?r"
    using ie by (rule_tac log_ok_same [of ?e]) (simp_all add: coalescing_inv_def f)
  moreover have "issued ?r"
    using ie snd_set_delete [of "k_score_sig kw" "pending_sb_goal_timers ?e"]
    by (rule_tac issued_shrink [of ?e]) (simp_all add: coalescing_inv_def f)
  ultimately show ?thesis
    by (simp add: coalescing_inv_def)
qed

lemma inv_fire_win:
  assumes "coalescing_inv s"
  shows "coalescing_inv (fire_win wc s)"
proof -
  have "coalescing_inv (fire_event (TeamWin wc) s)"
    by (rule inv_fire_event [OF assms]) simp
  then show ?thesis
    by (simp add: fire_win_def inv_frame [of "fire_event (TeamWin wc) s"])
qed

lemma inv_timer_fires:
  assumes "coalescing_inv s"
  shows "coalescing_inv (timer_fires cfg w h s)"
proof (cases "timers s h")
  case None
  then show ?thesis
    using assms by (simp add: timer_fires_def)
next
  case (Some p)
  obtain due cb where p: "p = (due, cb)" by (cases p)
  show ?thesis
  proof (cases "due \<le> w_now w")
    case False
    then show ?thesis
      using assms Some p by (simp add: timer_fires_def)
  next
    case True
    let ?s0 = "s\<lparr>timers := (timers s)(h := None)\<rparr>"
    have tf: "timer_fires cfg w h s = run_callback cfg w cb ?s0"
      using True Some p by (simp add: timer_fires_def)
    have i0: "coalescing_inv ?s0"
      by (rule inv_drop_timer [OF assms])
    show ?thesis
    proof (cases cb)
      case (CoalescedFire e ty)
      then show ?thesis
        using inv_coalesced_fire [OF assms, of h due e ty w] Some p
        by (simp add: tf run_callback_def)
    next
      case (ScoreboardGoalFire kw)
      then show ?thesis
        using inv_scoreboard_goal_fire_wrapper [OF i0] by (simp add: tf run_callback_def)
    next
      case (FireWin wc)
      then show ?thesis
        using inv_fire_win [OF i0] by (simp add: tf run_callback_def)
    qed
  qed
qed


lemma inv_reset_trackers: "coalescing_inv s \<Longrightarrow> coalescing_inv (reset_trackers s)"
  by (erule inv_frame) (simp_all add: reset_trackers_fields)

lemma inv_dashboard_session:
  assumes "coalescing_inv s"
  shows "coalescing_inv (dashboard_session is_test a s)"
proof -
  have c: "coalescing_inv (clear_pending_events s)"
    by (rule inv_clear [OF assms])
  have "coalescing_inv ((clear_pending_events s)
      \<lparr>internal_prev_home_score := x, internal_prev_away_score := y,
       internal_prev_game_id_for_score_tracking := z\<rparr>)" for x y z
    using c by (simp add: inv_frame [of "clear_pending_events s"])
  then show ?thesis
    using assms by (simp add: dashboard_session_def Let_def inv_reset_trackers)
qed

lemma inv_dashboard_event:
  assumes "coalescing_inv s"
  shows "coalescing_inv (snd (dashboard_event cfg w nw sd s))"
  using assms
  by (simp add: dashboard_event_def Let_def inv_schedule_event_coalesced
      inv_cancel_scoreboard_fallback split: option.splits)

lemma inv_schedule_scoreboard_goal:
  assumes "coalescing_inv s"
  shows "coalescing_inv (schedule_scoreboard_goal cfg w a sd kind s)"
proof -
  let ?cb = "ScoreboardGoalFire
                 \<lparr>k_kind = kind, k_score_sig = score_sig_of a,
                  k_my_score = my_score_new sd, k_opp_score = opp_score_new sd,
                  k_period_ord = d_period_ord a, k_time_remaining = d_time_remaining a\<rparr>"
  let ?d = "max (1 / 10) (seconds (get_broadcast_delay cfg (w_delay_entity w)))"
  have "schedule_scoreboard_goal cfg w a sd kind s =
      (snd (run_in w ?cb ?d s))
        \<lparr>pending_sb_goal_timers :=
           AList.update (score_sig_of a) (next_handle s)
             (pending_sb_goal_timers (snd (run_in w ?cb ?d s)))\<rparr>"
    by (simp add: schedule_scoreboard_goal_def Let_def run_in_def)
  then show ?thesis
    using inv_run_in(2) [OF assms, where cb = ?cb and w = w and d = ?d and sig = "score_sig_of a"]
    by simp
qed

lemma inv_dashboard_fallback:
  "coalescing_inv s \<Longrightarrow> coalescing_inv (dashboard_fallback cfg w a sd b s)"
  by (simp add: dashboard_fallback_def inv_schedule_scoreboard_goal)

lemma inv_run_in_win:
  "coalescing_inv s \<Longrightarrow> coalescing_inv (snd (run_in w (FireWin wc) d s))"
  by (rule inv_run_in(1)) simp_all

lemma inv_dashboard_win:
  assumes "coalescing_inv s"
  shows "coalescing_inv (dashboard_win cfg w a sd s)"
  using assms by (simp add: dashboard_win_def Let_def inv_run_in_win)

lemma inv_dashboard_baseline:
  "coalescing_inv s \<Longrightarrow> coalescing_inv (dashboard_baseline a sd s)"
  by (erule inv_frame) (simp_all add: dashboard_baseline_def)

lemma inv_dashboard:
  assumes "coalescing_inv s"
  shows "coalescing_inv (dashboard_sensor_change_callback cfg w is_test new s)"
proof (cases new)
  case None
  then show ?thesis
    using assms by (simp add: dashboard_sensor_change_callback_def)
next
  case (Some nw)
  let ?s1 = "dashboard_session is_test (ds_attrs nw) s"
  have i1: "coalescing_inv ?s1"
    by (rule inv_dashboard_session [OF assms])
  show ?thesis
  proof (cases "dashboard_sides w (ds_attrs nw) ?s1")
    case None
    then show ?thesis
      using assms i1 Some by (simp add: dashboard_sensor_change_callback_def Let_def)
  next
    case (Some sd)
    have "coalescing_inv
        (dashboard_baseline (ds_attrs nw) sd
          (dashboard_win cfg w (ds_attrs nw) sd
            (dashboard_fallback cfg w (ds_attrs nw) sd (fst (dashboard_event cfg w nw sd ?s1))
              (snd (dashboard_event cfg w nw sd ?s1)))))"
      by (intro inv_dashboard_baseline inv_dashboard_win inv_dashboard_fallback
          inv_dashboard_event i1)
    then show ?thesis
      using assms Some \<open>new = Some nw\<close>
      by (simp add: dashboard_sensor_change_callback_def Let_def case_prod_unfold)
  qed
qed

lemma inv_api_session:
  assumes "coalescing_inv s"
  shows "coalescing_inv (api_session ctx s)"
proof -
  have "coalescing_inv
      ((clear_pending_events s)\<lparr>internal_prev_game_id_for_score_tracking := c_game_id ctx\<rparr>)"
    by (rule inv_frame [OF inv_clear [OF assms]]) simp_all
  then have "coalescing_inv (reset_trackers
      ((clear_pending_events s)\<lparr>internal_prev_game_id_for_score_tracking := c_game_id ctx\<rparr>))"
    by (rule inv_reset_trackers)
  then show ?thesis
    using assms by (simp add: api_session_def)
qed

lemma inv_fire_puck_drop:
  assumes "coalescing_inv s"
  shows "coalescing_inv (fire_puck_drop ctx s)"
proof -
  have "coalescing_inv (fire_event (PuckDrop (c_game_id ctx)) s)"
    by (rule inv_fire_event [OF assms]) simp
  then have "coalescing_inv ((fire_event (PuckDrop (c_game_id ctx)) s)
      \<lparr>internal_start_fired_game_id := c_game_id ctx\<rparr>)"
    by (rule inv_frame) simp_all
  then show ?thesis
    using assms by (simp add: fire_puck_drop_def)
qed

lemma inv_api_goal:
  assumes "coalescing_inv s"
  shows "coalescing_inv (api_goal cfg w attrs ctx s)"
proof (cases "a_goal_event_id attrs")
  case None
  then show ?thesis
    using assms by (simp add: api_goal_def)
next
  case (Some e)
  show ?thesis
  proof (cases "e = [] \<or> e \<in> nhl_api_goal_ids_processed s")
    case True
    then show ?thesis
      using assms Some by (auto simp: api_goal_def)
  next
    case False
    define sg where "sg = (c_home_score ctx, c_away_score ctx)"
    define s2 where "s2 = (cancel_scoreboard_fallback sg s)
      \<lparr>sb_last_fired_home_away := Some sg,
       sb_goal_suppress_until_ts := w_now w + suppress_after_scoreboard_goal_seconds cfg\<rparr>"
    define s3 where "s3 = schedule_event_coalesced w e Goal
      (build_nhl_api_goal_payload attrs ctx
         (fst (determine_goal_side attrs ctx (internal_prev_home_score s)
                 (internal_prev_away_score s))))
      (max (1 / 10) (coalesce_goal_seconds cfg +
                     seconds (get_broadcast_delay cfg (w_delay_entity w)))) s2"
    have r: "api_goal cfg w attrs ctx s =
        s3\<lparr>nhl_api_goal_ids_processed := insert e (nhl_api_goal_ids_processed s3)\<rparr>"
      using False Some by (simp add: api_goal_def Let_def s3_def s2_def sg_def)
    have "coalescing_inv s2"
      unfolding s2_def
      by (rule inv_frame [OF inv_cancel_scoreboard_fallback [OF assms, of sg]]) simp_all
    then have "coalescing_inv s3"
      unfolding s3_def by (rule inv_schedule_event_coalesced)
    then show ?thesis
      unfolding r by (rule inv_frame) simp_all
  qed
qed

lemma inv_process_nhl_api_win:
  assumes "coalescing_inv s"
  shows "coalescing_inv (process_nhl_api_win cfg w ctx s)"
  using assms by (simp add: process_nhl_api_win_def Let_def inv_run_in_win)

lemma inv_api:
  assumes "coalescing_inv s"
  shows "coalescing_inv (nhl_api_sensor_change_callback cfg w old new s)"
proof -
  have 2: "coalescing_inv (if P then fire_puck_drop ctx (api_session ctx s) else api_session ctx s)"
    for P ctx
    using inv_api_session [OF assms, of ctx] by (simp add: inv_fire_puck_drop)
  have 3: "coalescing_inv
      ((if P then fire_puck_drop ctx (api_session ctx s) else api_session ctx s)
        \<lparr>internal_prev_home_score := x, internal_prev_away_score := y\<rparr>)" for P ctx x y
    by (rule inv_frame [OF 2]) simp_all
  have 4: "coalescing_inv (api_goal cfg w attrs ctx
      ((if P then fire_puck_drop ctx (api_session ctx s) else api_session ctx s)
        \<lparr>internal_prev_home_score := x, internal_prev_away_score := y\<rparr>))" for P ctx x y attrs
    by (rule inv_api_goal [OF 3])
  have 5: "coalescing_inv (process_nhl_api_win cfg w ctx' (api_goal cfg w attrs ctx
      ((if P then fire_puck_drop ctx (api_session ctx s) else api_session ctx s)
        \<lparr>internal_prev_home_score := x, internal_prev_away_score := y\<rparr>)))"
    for P ctx x y attrs ctx'
    by (rule inv_process_nhl_api_win [OF 4])
  show ?thesis
    unfolding nhl_api_sensor_change_callback_def Let_def
    by (simp only: assms 4 5 if_True if_False split: option.split if_split) simp
qed

lemma inv_preset:
  assumes "coalescing_inv s"
  shows "coalescing_inv (team_preset_change_callback old new s)"
proof -
  have "coalescing_inv
      (s\<lparr>internal_prev_home_score := 0, internal_prev_away_score := 0,
         internal_prev_game_id_for_score_tracking := None\<rparr>)"
    by (rule inv_frame [OF assms]) simp_all
  then have "coalescing_inv (clear_pending_events (reset_trackers
      (s\<lparr>internal_prev_home_score := 0, internal_prev_away_score := 0,
         internal_prev_game_id_for_score_tracking := None\<rparr>)))"
    by (intro inv_clear inv_reset_trackers)
  then show ?thesis
    using assms by (simp add: team_preset_change_callback_def)
qed

lemma inv_initial:
  assumes "coalescing_inv s"
  shows "coalescing_inv (process_initial_state init s)"
proof -
  have "coalescing_inv ((clear_pending_events s)
      \<lparr>internal_prev_home_score := x, internal_prev_away_score := y,
       internal_prev_game_id_for_score_tracking := z\<rparr>)" for x y z
    by (rule inv_frame [OF inv_clear [OF assms]]) simp_all
  then have "coalescing_inv (reset_trackers ((clear_pending_events s)
      \<lparr>internal_prev_home_score := x, internal_prev_away_score := y,
       internal_prev_game_id_for_score_tracking := z\<rparr>))" for x y z
    by (rule inv_reset_trackers)
  then show ?thesis
    by (simp add: process_initial_state_def Let_def split: option.splits)
qed

lemma inv_step: "coalescing_inv s \<Longrightarrow> coalescing_inv (step cfg wi s)"
  by (cases "snd wi")
     (simp_all add: step_def inv_dashboard inv_api inv_timer_fires inv_preset inv_initial)

lemma inv_run: "coalescing_inv s \<Longrightarrow> coalescing_inv (run cfg trace s)"
  unfolding run_def by (induction trace arbitrary: s) (simp_all add: inv_step)

text \<open>
  Claim C1, as the specification words it, fails across a session reset: the reset empties
  the fired-event log, and an event id the feed still reports is scheduled and dispatched
  again. The dashboard sensor reports event 55, its timer dispatches it, the sensor is blank
  for one poll (no game id: a reset), and the next poll reports event 55 again; its second
  timer dispatches it a second time.
\<close>

theorem at_most_once_counterexample:
  "emitted (run example_config example_twice_trace initialize) =
     [(1, CoalescedGoal ''55'' example_payload), (3, CoalescedGoal ''55'' example_payload)] \<and>
   dispatches_ever ''55'' (emitted (run example_config example_twice_trace initialize)) = 2"
proof -
  have "emitted (run example_config example_twice_trace initialize) =
     [(1, CoalescedGoal ''55'' example_payload), (3, CoalescedGoal ''55'' example_payload)]"
    by (simp add: engine_defs example_defs value_defs)
  then show ?thesis
    by (simp add: dispatches_ever_def)
qed

text \<open>
  Claim C1, amended: in every state \<open>r\<close> the engine reaches from \<^verbatim>\<open>initialize\<close> through any
  sequence of callbacks (observations of either feed, timers, preset changes, initial
  loads), every event id has been dispatched at most once in each session, a session being
  the time between two resets; a schedule call for an event id in the fired-event log
  changes nothing; at most one live timer carries a given event id; and an event id
  dispatched in the current session is in the fired-event log.
\<close>

theorem at_most_once_per_session:
  assumes "r = run cfg trace initialize"
  shows "dispatches k e (emitted r) \<le> 1 \<and>
    (e \<in> fired_event_ids r \<longrightarrow> schedule_event_coalesced w e ty pl d r = r) \<and>
    (timers r h = Some (d1, CoalescedFire e ty1) \<and>
     timers r h' = Some (d2, CoalescedFire e ty2) \<longrightarrow> h = h') \<and>
    (dispatches (session r) e (emitted r) \<noteq> 0 \<longrightarrow> e \<in> fired_event_ids r)"
proof -
  have inv: "coalescing_inv r"
    unfolding assms by (rule inv_run [OF inv_initialize])
  then have t: "timers_ok r" and l: "log_ok r"
    by (simp_all add: coalescing_inv_def)
  have 1: "dispatches k e (emitted r) \<le> 1"
    using l by (simp add: log_ok_def)
  have 2: "e \<in> fired_event_ids r \<longrightarrow> schedule_event_coalesced w e ty pl d r = r"
    by (simp add: schedule_event_coalesced_def)
  have 3: "timers r h = Some (d1, CoalescedFire e ty1) \<and>
      timers r h' = Some (d2, CoalescedFire e ty2) \<longrightarrow> h = h'"
  proof
    assume a: "timers r h = Some (d1, CoalescedFire e ty1) \<and>
      timers r h' = Some (d2, CoalescedFire e ty2)"
    then have "map_of (pending_event_timers r) e = Some h"
      and "map_of (pending_event_timers r) e = Some h'"
      using t unfolding timers_ok_def by blast+
    then show "h = h'"
      by simp
  qed
  have 4: "dispatches (session r) e (emitted r) \<noteq> 0 \<longrightarrow> e \<in> fired_event_ids r"
    using l unfolding log_ok_def by auto
  from 1 2 3 4 show ?thesis
    by blast
qed

theorem at_most_once_per_session_witness:
  "timers (run example_config example_pending_trace initialize) 0 =
     Some (13 / 10, CoalescedFire ''55'' Goal) \<and>
   timers (run example_config example_pending_trace initialize) 1 \<noteq>
     Some (13 / 10, CoalescedFire ''55'' Goal) \<and>
   emitted (run example_config example_once_trace initialize) =
     [(1, CoalescedGoal ''55'' example_payload)] \<and>
   session (run example_config example_once_trace initialize) = 1 \<and>
   dispatches 1 ''55'' (emitted (run example_config example_once_trace initialize)) = 1 \<and>
   ''55'' \<in> fired_event_ids (run example_config example_once_trace initialize) \<and>
   schedule_event_coalesced (example_world 5) ''55'' Goal example_payload_later (13 / 10)
     (run example_config example_once_trace initialize) =
   run example_config example_once_trace initialize"
proof -
  define r1 where "r1 = run example_config example_pending_trace initialize"
  define r2 where "r2 = run example_config example_once_trace initialize"
  have p: "timers r1 0 = Some (13 / 10, CoalescedFire ''55'' Goal)"
    unfolding r1_def by (simp add: engine_defs example_defs value_defs)
  have q: "timers r1 1 \<noteq> Some (13 / 10, CoalescedFire ''55'' Goal)"
    using at_most_once_per_session [OF r1_def, THEN conjunct2, THEN conjunct2, THEN conjunct1,
        of 0 "13 / 10" "''55''" Goal 1 "13 / 10" Goal] p
    by auto
  have e: "emitted r2 = [(1, CoalescedGoal ''55'' example_payload)]"
    unfolding r2_def by (simp add: engine_defs example_defs value_defs)
  have k: "session r2 = 1"
    unfolding r2_def by (simp add: engine_defs example_defs value_defs)
  have n: "dispatches 1 ''55'' (emitted r2) = 1"
    using at_most_once_per_session [OF r2_def, THEN conjunct1, of 1 "''55''"]
    by (simp add: e dispatches_def)
  have f: "''55'' \<in> fired_event_ids r2"
    using at_most_once_per_session [OF r2_def, THEN conjunct2, THEN conjunct2, THEN conjunct2,
        of "''55''"] n k
    by simp
  have g: "schedule_event_coalesced (example_world 5) ''55'' Goal example_payload_later (13 / 10) r2 = r2"
    using at_most_once_per_session [OF r2_def, THEN conjunct2, THEN conjunct1, THEN mp, OF f] .
  from p q e k n f g show ?thesis
    unfolding r1_def r2_def by blast
qed

end
